theory Spec2Isabelle
  imports Complex_Main "HOL-Library.Word" "HOL-Library.Sublist" "HOL-Library.AList"
    "HOL-Library.Log_Nat"
begin

section \<open>Exceptions and the three-tier error taxonomy\<close>

text \<open>
  The checks of autosuspend (\<^verbatim>\<open>checks/kodi.py\<close>, \<^verbatim>\<open>checks/systemd.py\<close>,
  \<^verbatim>\<open>checks/wakeup.py\<close>) are modelled as pure functions from what the check observes
  in its environment (a file's content, a process's exit status and output, an HTTP
  reply, the units and sessions listed on the bus, the clock) to either a result or an
  error. Python exceptions are values: \<open>pyexn\<close> lists the built-in exception classes
  that the modelled library calls raise, \<open>check_error\<close> is what leaves a check.
  \<open>Unhandled e\<close> is an exception \<open>e\<close> that no \<^verbatim>\<open>except\<close> clause of the check
  catches and that therefore escapes to the caller as it is.
\<close>

datatype pyexn =
    IndexError | KeyError | TypeError | AttributeError
  | ValueError | UnicodeDecodeError | JSONDecodeError
  | OverflowError
  | OSError | FileNotFoundError
  | CalledProcessError int
  | LogindDBusException

datatype check_error =
    ConfigurationError | TemporaryCheckError | SevereCheckError | Unhandled pyexn

text \<open>The subclass relations that the \<^verbatim>\<open>except\<close> clauses of the checks depend on.\<close>

fun is_ValueError :: "pyexn \<Rightarrow> bool" where
  "is_ValueError ValueError = True"
| "is_ValueError UnicodeDecodeError = True"
| "is_ValueError JSONDecodeError = True"
| "is_ValueError _ = False"

fun is_IOError :: "pyexn \<Rightarrow> bool" where
  "is_IOError OSError = True"
| "is_IOError FileNotFoundError = True"
| "is_IOError _ = False"

section \<open>Text: whitespace, \<^verbatim>\<open>strip\<close>, \<^verbatim>\<open>splitlines\<close>, indexing\<close>

text \<open>
  A \<^verbatim>\<open>bytes\<close> value is a list of 8-bit characters. A \<^verbatim>\<open>str\<close> is modelled by the
  list of its code points below 256; code points from 256 on are outside the model.
  The two types differ in what they take for white space and for a line boundary.
\<close>

definition bytes_space :: "char \<Rightarrow> bool" where
  "bytes_space c = (of_char c \<in> set [9, 10, 11, 12, 13, 32 :: nat])"

definition str_space :: "char \<Rightarrow> bool" where
  "str_space c = (of_char c \<in> set [9, 10, 11, 12, 13, 28, 29, 30, 31, 32, 133, 160 :: nat])"

definition strip :: "(char \<Rightarrow> bool) \<Rightarrow> string \<Rightarrow> string" where
  "strip sp s = rev (dropWhile sp (rev (dropWhile sp s)))"

definition bytes_linebreak :: "char \<Rightarrow> bool" where
  "bytes_linebreak c = (of_char c \<in> set [10, 13 :: nat])"

definition str_linebreak :: "char \<Rightarrow> bool" where
  "str_linebreak c = (of_char c \<in> set [10, 11, 12, 13, 28, 29, 30, 133 :: nat])"

text \<open>
  \<^verbatim>\<open>splitlines()\<close>: the lines without their boundaries; carriage return followed by
  line feed is one boundary; a boundary at the very end opens no further line, so the
  empty text has no line at all. The second argument is the line read so far, reversed.
\<close>

fun splitlines_from :: "(char \<Rightarrow> bool) \<Rightarrow> string \<Rightarrow> string \<Rightarrow> string list" where
  "splitlines_from brk cur [] = (if cur = [] then [] else [rev cur])"
| "splitlines_from brk cur [c] = (if brk c then [rev cur] else [rev (c # cur)])"
| "splitlines_from brk cur (c # d # cs) =
     (if c = CHR 0x0D \<and> d = CHR 0x0A then rev cur # splitlines_from brk [] cs
      else if brk c then rev cur # splitlines_from brk [] (d # cs)
      else splitlines_from brk (c # cur) (d # cs))"

definition splitlines :: "(char \<Rightarrow> bool) \<Rightarrow> string \<Rightarrow> string list" where
  "splitlines brk s = splitlines_from brk [] s"

text \<open>\<^verbatim>\<open>xs[0]\<close> raises IndexError on the empty list.\<close>

definition index0 :: "'a list \<Rightarrow> pyexn + 'a" where
  "index0 xs = (case xs of [] \<Rightarrow> Inl IndexError | x # _ \<Rightarrow> Inr x)"

section \<open>Floating-point numbers and \<^verbatim>\<open>float()\<close>\<close>

text \<open>
  A Python float is a binary64 number: it is modelled by the rational number it
  denotes, or one of the three special values. The sign of zero is not modelled.
\<close>

datatype pyfloat = Finite rat | PosInf | NegInf | NaN

text \<open>Rounding to the nearest integer, a tie to the even neighbour.\<close>

definition round_half_even :: "rat \<Rightarrow> int" where
  "round_half_even x =
     (let f = \<lfloor>x\<rfloor>; r = x - of_int f
      in if r < 1 / 2 then f
         else if 1 / 2 < r then f + 1
         else if even f then f else f + 1)"

text \<open>
  Rounding a number to binary64, to the nearest and a tie to the even significand, as
  every operation on floats does with its exact result. The exponent \<open>e\<close> of
  a positive \<open>a\<close> is the one with \<open>2 ^ e \<le> a < 2 ^ (e + 1)\<close>; the significand has 53
  bits, so that neighbours are \<open>2 ^ (e - 52)\<close> apart, and \<open>2 ^ (- 1074)\<close> apart below
  \<open>2 ^ (- 1022)\<close>. A result of \<open>2 ^ 1024\<close> or more is infinite.
\<close>

definition pow2 :: "int \<Rightarrow> rat" where
  "pow2 k = (if 0 \<le> k then 2 ^ nat k else 1 / 2 ^ nat (- k))"

definition exponent :: "rat \<Rightarrow> int" where
  "exponent a = (if 1 \<le> a then bitlen \<lfloor>a\<rfloor> - 1 else - bitlen (\<lceil>1 / a\<rceil> - 1))"

definition round64 :: "rat \<Rightarrow> rat" where
  "round64 x =
     (if x = 0 then 0
      else (let a = \<bar>x\<bar>;
                ulp = pow2 (max (exponent a) (- 1022) - 52);
                r = of_int (round_half_even (a / ulp)) * ulp
            in if 0 < x then r else - r))"

definition binary64 :: "rat \<Rightarrow> pyfloat" where
  "binary64 x =
     (let r = round64 x
      in if 2 ^ 1024 \<le> r then PosInf
         else if r \<le> - (2 ^ 1024) then NegInf
         else Finite r)"

text \<open>The integer part of a float, towards zero, as \<^verbatim>\<open>modf\<close> gives it.\<close>

definition trunc :: "rat \<Rightarrow> int" where
  "trunc x = (if 0 \<le> x then \<lfloor>x\<rfloor> else \<lceil>x\<rceil>)"

definition is_digit :: "char \<Rightarrow> bool" where
  "is_digit c = (48 \<le> (of_char c :: nat) \<and> (of_char c :: nat) \<le> 57)"

definition digit_val :: "char \<Rightarrow> nat" where
  "digit_val c = of_char c - 48"

definition nat_of_digits :: "string \<Rightarrow> nat" where
  "nat_of_digits ds = foldl (\<lambda>a c. 10 * a + digit_val c) 0 ds"

definition to_lower :: "char \<Rightarrow> char" where
  "to_lower c = (if 65 \<le> (of_char c :: nat) \<and> (of_char c :: nat) \<le> 90
                 then char_of (of_char c + 32 :: nat) else c)"

text \<open>
  An underscore is allowed only between two digits. The first argument is the
  character before the rest of the text.
\<close>

fun drop_underscores :: "char \<Rightarrow> string \<Rightarrow> string option" where
  "drop_underscores prev [] = (if prev = CHR ''_'' then None else Some [])"
| "drop_underscores prev (c # cs) =
     (if c = CHR ''_'' then (if is_digit prev then drop_underscores c cs else None)
      else if prev = CHR ''_'' \<and> \<not> is_digit c then None
      else map_option (Cons c) (drop_underscores c cs))"

definition pow10 :: "int \<Rightarrow> rat" where
  "pow10 k = (if 0 \<le> k then 10 ^ nat k else 1 / 10 ^ nat (- k))"

text \<open>The exponent part: empty, or \<^verbatim>\<open>e\<close> with an optional sign and at least one digit.\<close>

definition parse_exponent :: "string \<Rightarrow> int option" where
  "parse_exponent s =
     (case s of
        [] \<Rightarrow> Some 0
      | e # t \<Rightarrow>
          if to_lower e \<noteq> CHR ''e'' then None
          else (let (neg, ds) = (case t of
                                    [] \<Rightarrow> (False, [])
                                  | g # u \<Rightarrow> if g = CHR ''-'' then (True, u)
                                             else if g = CHR ''+'' then (False, u)
                                             else (False, t))
                in if ds \<noteq> [] \<and> list_all is_digit ds
                   then Some (if neg then - int (nat_of_digits ds) else int (nat_of_digits ds))
                   else None))"

text \<open>
  An unsigned decimal numeral: digits, an optional fraction, an optional exponent. Its
  value as a number; \<^verbatim>\<open>float\<close> gives the float nearest to it.
\<close>

definition parse_number :: "string \<Rightarrow> rat option" where
  "parse_number s =
     (let ip = takeWhile is_digit s;
          r1 = dropWhile is_digit s;
          (fp, r2) = (case r1 of
                        [] \<Rightarrow> ([], [])
                      | c # t \<Rightarrow> if c = CHR ''.'' then (takeWhile is_digit t, dropWhile is_digit t)
                                 else ([], r1))
      in if ip = [] \<and> fp = [] then None
         else (case parse_exponent r2 of
                 None \<Rightarrow> None
               | Some e \<Rightarrow> Some (of_nat (nat_of_digits (ip @ fp)) * pow10 (e - int (length fp)))))"

definition parse_unsigned :: "string \<Rightarrow> pyfloat option" where
  "parse_unsigned s =
     (let l = map to_lower s
      in if l = ''inf'' \<or> l = ''infinity'' then Some PosInf
         else if l = ''nan'' then Some NaN
         else map_option binary64 (parse_number s))"

fun negate :: "pyfloat \<Rightarrow> pyfloat" where
  "negate (Finite r) = Finite (- r)"
| "negate PosInf = NegInf"
| "negate NegInf = PosInf"
| "negate NaN = NaN"

definition parse_signed :: "string \<Rightarrow> pyfloat option" where
  "parse_signed s =
     (case s of
        [] \<Rightarrow> None
      | c # t \<Rightarrow> if c = CHR ''-'' then map_option negate (parse_unsigned t)
                 else if c = CHR ''+'' then parse_unsigned t
                 else parse_unsigned s)"

text \<open>
  \<^verbatim>\<open>float(s)\<close> for a text \<open>s\<close>: underscores are checked and removed, white space
  around the numeral is dropped, and anything that is not a numeral raises ValueError.
  \<^verbatim>\<open>float()\<close> of a \<^verbatim>\<open>str\<close> does not take the separators 28 to 31 for white space,
  although \<^verbatim>\<open>str.strip()\<close> does.
\<close>

definition float_space :: "char \<Rightarrow> bool" where
  "float_space c = (of_char c \<in> set [9, 10, 11, 12, 13, 32, 133, 160 :: nat])"

definition py_float :: "(char \<Rightarrow> bool) \<Rightarrow> string \<Rightarrow> pyexn + pyfloat" where
  "py_float sp s =
     (case drop_underscores (CHR 0x00) s of
        None \<Rightarrow> Inl ValueError
      | Some t \<Rightarrow> (case parse_signed (strip sp t) of
                     None \<Rightarrow> Inl ValueError
                   | Some f \<Rightarrow> Inr f))"

definition float_of_str :: "string \<Rightarrow> pyexn + pyfloat" where
  "float_of_str = py_float float_space"

definition float_of_bytes :: "string \<Rightarrow> pyexn + pyfloat" where
  "float_of_bytes = py_float bytes_space"

section \<open>Instants and durations\<close>

text \<open>
  A \<^verbatim>\<open>datetime\<close> is the number of microseconds that its calendar fields lie after
  1970-01-01 00:00:00, together with its offset from UTC in microseconds when it is
  timezone-aware (\<open>None\<close> is a naive datetime, \<open>Some 0\<close> is \<^verbatim>\<open>timezone.utc\<close>). The
  calendar fields of a datetime lie in the years 1 to 9999. A \<^verbatim>\<open>timedelta\<close> is a
  number of microseconds of at most 999999999 days in magnitude.
\<close>

record datetime =
  wall_us :: int
  utcoffset :: "int option"

type_synonym timedelta = int

text \<open>A datetime is timezone-aware when its \<^verbatim>\<open>utcoffset()\<close> is not \<^verbatim>\<open>None\<close>.\<close>

definition aware :: "datetime \<Rightarrow> bool" where
  "aware d = (utcoffset d \<noteq> None)"

definition DATETIME_MIN_US :: int where
  "DATETIME_MIN_US = - 62135596800000000"

definition DATETIME_MAX_US :: int where
  "DATETIME_MAX_US = 253402300799999999"

definition TIMEDELTA_MIN_US :: int where
  "TIMEDELTA_MIN_US = - 86399999913600000000"

definition TIMEDELTA_MAX_US :: int where
  "TIMEDELTA_MAX_US = 86399999999999999999"

definition datetime_in_range :: "int \<Rightarrow> bool" where
  "datetime_in_range us = (DATETIME_MIN_US \<le> us \<and> us \<le> DATETIME_MAX_US)"

definition timedelta_in_range :: "int \<Rightarrow> bool" where
  "timedelta_in_range us = (TIMEDELTA_MIN_US \<le> us \<and> us \<le> TIMEDELTA_MAX_US)"

text \<open>
  \<^verbatim>\<open>datetime.fromtimestamp(t, timezone.utc)\<close>. NaN is a ValueError. The float is
  split into its integer part, the seconds, and its fraction; the fraction times
  1000000, a float again, is rounded to the microseconds, and a full second of
  microseconds is carried. A number of seconds that does not fit the 64-bit
  \<^verbatim>\<open>time_t\<close> is an OverflowError; one whose year does not fit the C library's
  \<^verbatim>\<open>struct tm\<close> is an OSError; one outside the years 1 to 9999 is a ValueError.
\<close>

definition fromtimestamp_utc :: "pyfloat \<Rightarrow> pyexn + datetime" where
  "fromtimestamp_utc t =
     (case t of
        NaN \<Rightarrow> Inl ValueError
      | PosInf \<Rightarrow> Inl OverflowError
      | NegInf \<Rightarrow> Inl OverflowError
      | Finite d \<Rightarrow>
          (let intpart = trunc d;
               floatpart = round_half_even (round64 ((d - of_int intpart) * 1000000));
               secs = (if 1000000 \<le> floatpart then intpart + 1
                       else if floatpart < 0 then intpart - 1 else intpart);
               us = (if 1000000 \<le> floatpart then floatpart - 1000000
                     else if floatpart < 0 then floatpart + 1000000 else floatpart)
           in if secs < - 9223372036854775808 \<or> 9223372036854775807 < secs
                then Inl OverflowError
              else if secs < - 67768040609740800 \<or> 67768036191676799 < secs
                then Inl OSError
              else if datetime_in_range (secs * 1000000 + us)
                then Inr \<lparr>wall_us = secs * 1000000 + us, utcoffset = Some 0\<rparr>
              else Inl ValueError))"

text \<open>
  The keyword arguments of \<^verbatim>\<open>timedelta\<close> and the microseconds in one unit of each.
  The list is also the \<^verbatim>\<open>UNITS\<close> of \<^verbatim>\<open>XPathDelta\<close>.
\<close>

definition UNITS :: "string list" where
  "UNITS = [''days'', ''seconds'', ''microseconds'', ''milliseconds'', ''minutes'',
            ''hours'', ''weeks'']"

definition unit_us :: "string \<Rightarrow> int option" where
  "unit_us u =
     (if u = ''days'' then Some 86400000000
      else if u = ''seconds'' then Some 1000000
      else if u = ''microseconds'' then Some 1
      else if u = ''milliseconds'' then Some 1000
      else if u = ''minutes'' then Some 60000000
      else if u = ''hours'' then Some 3600000000
      else if u = ''weeks'' then Some 604800000000
      else None)"

text \<open>
  \<^verbatim>\<open>timedelta(**{unit: value})\<close> for a float: a keyword that \<^verbatim>\<open>timedelta\<close> does
  not have is a TypeError, NaN is a ValueError, an infinite or too large value an
  OverflowError. The integer part of the value times the microseconds of the unit is
  an integer; the fraction times the microseconds of the unit is a float, and is added
  and rounded to a microsecond.
\<close>

definition timedelta_kw :: "string \<Rightarrow> pyfloat \<Rightarrow> pyexn + timedelta" where
  "timedelta_kw u v =
     (case unit_us u of
        None \<Rightarrow> Inl TypeError
      | Some k \<Rightarrow>
          (case v of
             NaN \<Rightarrow> Inl ValueError
           | PosInf \<Rightarrow> Inl OverflowError
           | NegInf \<Rightarrow> Inl OverflowError
           | Finite d \<Rightarrow>
               (let intpart = trunc d;
                    fracpart = d - of_int intpart;
                    us = (if fracpart = 0 then intpart * k
                          else round_half_even
                                 (of_int (intpart * k) + round64 (of_int k * fracpart)))
                in if timedelta_in_range us then Inr us else Inl OverflowError)))"

text \<open>
  \<^verbatim>\<open>datetime + timedelta\<close> keeps the timezone and raises OverflowError when the sum
  leaves the years 1 to 9999.
\<close>

definition datetime_add :: "datetime \<Rightarrow> timedelta \<Rightarrow> pyexn + datetime" where
  "datetime_add d td =
     (if datetime_in_range (wall_us d + td) then Inr (d\<lparr>wall_us := wall_us d + td\<rparr>)
      else Inl OverflowError)"

text \<open>
  \<^verbatim>\<open>a < b\<close> on datetimes: two naive ones compare by their fields, two aware ones by
  their instants, and comparing a naive with an aware one is a TypeError.
\<close>

definition datetime_lt :: "datetime \<Rightarrow> datetime \<Rightarrow> pyexn + bool" where
  "datetime_lt a b =
     (case (utcoffset a, utcoffset b) of
        (None, None) \<Rightarrow> Inr (wall_us a < wall_us b)
      | (Some oa, Some ob) \<Rightarrow> Inr (wall_us a - oa < wall_us b - ob)
      | _ \<Rightarrow> Inl TypeError)"

text \<open>
  \<^verbatim>\<open>min(e(m) for m in ms)\<close>: ValueError when there is no item; otherwise the
  items are produced and compared from the left, one at a time, and a later item
  replaces the minimum so far only when it is smaller. An exception of the generator
  expression \<open>e\<close> or of a comparison ends the iteration. \<^verbatim>\<open>min(xs)\<close> of a list is
  the case in which producing an item cannot fail.
\<close>

fun min_from :: "('a \<Rightarrow> pyexn + datetime) \<Rightarrow> datetime \<Rightarrow> 'a list \<Rightarrow> pyexn + datetime" where
  "min_from e cur [] = Inr cur"
| "min_from e cur (m # ms) =
     (case e m of
        Inl x \<Rightarrow> Inl x
      | Inr d \<Rightarrow> (case datetime_lt d cur of
                     Inl x \<Rightarrow> Inl x
                   | Inr b \<Rightarrow> min_from e (if b then d else cur) ms))"

definition min_gen :: "('a \<Rightarrow> pyexn + datetime) \<Rightarrow> 'a list \<Rightarrow> pyexn + datetime" where
  "min_gen e ms =
     (case ms of
        [] \<Rightarrow> Inl ValueError
      | m # rest \<Rightarrow> (case e m of Inl x \<Rightarrow> Inl x | Inr d \<Rightarrow> min_from e d rest))"

definition py_min :: "datetime list \<Rightarrow> pyexn + datetime" where
  "py_min xs = min_gen Inr xs"

section \<open>Configuration sections\<close>

text \<open>
  A configuration section maps option names to their values, both strings.
  \<^verbatim>\<open>config[k]\<close> raises KeyError for an option that is not set,
  \<^verbatim>\<open>config.get(k, fallback=d)\<close> returns \<open>d\<close> then.
\<close>

type_synonym config = "string \<rightharpoonup> string"

definition config_item :: "config \<Rightarrow> string \<Rightarrow> pyexn + string" where
  "config_item cfg k = (case cfg k of None \<Rightarrow> Inl KeyError | Some v \<Rightarrow> Inr v)"

definition config_get :: "config \<Rightarrow> string \<Rightarrow> string \<Rightarrow> string" where
  "config_get cfg k fallback = (case cfg k of None \<Rightarrow> fallback | Some v \<Rightarrow> v)"

section \<open>Kodi activity checks (\<^verbatim>\<open>checks/kodi.py\<close>)\<close>

text \<open>
  The object that \<^verbatim>\<open>Response.json()\<close> returns: \<^verbatim>\<open>None\<close>, a bool, an int, a float,
  a string, a list or a dict (its items, each key once).
\<close>

datatype pyjson =
    JNone | JBool bool | JInt int | JFloat pyfloat | JStr string
  | JList "pyjson list" | JDict "(string \<times> pyjson) list"

text \<open>Truth value of an object in a condition.\<close>

fun truthy :: "pyjson \<Rightarrow> bool" where
  "truthy JNone = False"
| "truthy (JBool b) = b"
| "truthy (JInt i) = (i \<noteq> 0)"
| "truthy (JFloat f) = (f \<noteq> Finite 0)"
| "truthy (JStr s) = (s \<noteq> [])"
| "truthy (JList xs) = (xs \<noteq> [])"
| "truthy (JDict kvs) = (kvs \<noteq> [])"

text \<open>
  \<^verbatim>\<open>obj[key]\<close> with a string key: a dict raises KeyError for a missing key; a list, a
  string, a number, a bool and \<^verbatim>\<open>None\<close> raise TypeError.
\<close>

fun subscript :: "pyjson \<Rightarrow> string \<Rightarrow> pyexn + pyjson" where
  "subscript (JDict kvs) k = (case map_of kvs k of None \<Rightarrow> Inl KeyError | Some v \<Rightarrow> Inr v)"
| "subscript _ k = Inl TypeError"

text \<open>
  \<^verbatim>\<open>obj.get(key)\<close>: a dict returns \<^verbatim>\<open>None\<close> for a missing key; no other object of
  a JSON reply has the attribute \<^verbatim>\<open>get\<close>.
\<close>

fun dict_get :: "pyjson \<Rightarrow> string \<Rightarrow> pyexn + pyjson" where
  "dict_get (JDict kvs) k = (case map_of kvs k of None \<Rightarrow> Inr JNone | Some v \<Rightarrow> Inr v)"
| "dict_get _ k = Inl AttributeError"

text \<open>
  Modelled from the spec: \<^verbatim>\<open>NetworkMixin.request\<close> (\<^verbatim>\<open>checks/util.py\<close>) is not
  among the sources. Per the specification a connection failure, a timeout and a
  non-2xx response are a TemporaryCheckError at the call site; otherwise the call
  returns the response. The outcome of the request is an argument of the checks.
  The body of a response is either not JSON (\<open>None\<close>) or the object it decodes to.
\<close>

datatype response = Response "pyjson option"

fun json :: "response \<Rightarrow> pyexn + pyjson" where
  "json (Response None) = Inl JSONDecodeError"
| "json (Response (Some j)) = Inr j"

text \<open>\<^verbatim>\<open>Kodi._safe_request_result\<close>.\<close>

definition safe_request_result :: "check_error + response \<Rightarrow> check_error + pyjson" where
  "safe_request_result request =
     (case request of
        Inl err \<Rightarrow> Inl err
      | Inr resp \<Rightarrow>
          (case (case json resp of Inl e \<Rightarrow> Inl e | Inr j \<Rightarrow> subscript j ''result'') of
             Inr reply \<Rightarrow> Inr reply
           | Inl e \<Rightarrow> if e = KeyError \<or> e = TypeError \<or> e = JSONDecodeError
                      then Inl TemporaryCheckError else Inl (Unhandled e)))"

text \<open>
  \<^verbatim>\<open>Kodi.check\<close>; the first argument is \<^verbatim>\<open>self._suspend_while_paused\<close>. The result
  \<open>None\<close> is idle, \<open>Some reason\<close> is busy.
\<close>

definition Kodi_check :: "bool \<Rightarrow> check_error + response \<Rightarrow> check_error + string option" where
  "Kodi_check suspend_while_paused request =
     (case safe_request_result request of
        Inl err \<Rightarrow> Inl err
      | Inr reply \<Rightarrow>
          if suspend_while_paused
          then (case dict_get reply ''Player.Playing'' of
                  Inl e \<Rightarrow> Inl (Unhandled e)
                | Inr v \<Rightarrow> Inr (if truthy v then Some ''Kodi actively playing media'' else None))
          else Inr (if truthy reply then Some ''Kodi currently playing'' else None))"

text \<open>\<^verbatim>\<open>str(n)\<close> of an integer, for \<^verbatim>\<open>"System.IdleTime({})".format(idle_time)\<close>.\<close>

fun digits_of :: "nat \<Rightarrow> string" where
  "digits_of n =
     (if n < 10 then [''0123456789'' ! n]
      else digits_of (n div 10) @ [''0123456789'' ! (n mod 10)])"

declare digits_of.simps [simp del]

definition str_of_int :: "int \<Rightarrow> string" where
  "str_of_int i = (if i < 0 then CHR ''-'' # digits_of (nat (- i)) else digits_of (nat i))"

text \<open>\<^verbatim>\<open>KodiIdleTime.check\<close>; the first argument is \<^verbatim>\<open>self._idle_time\<close>.\<close>

definition KodiIdleTime_check :: "int \<Rightarrow> check_error + response \<Rightarrow> check_error + string option" where
  "KodiIdleTime_check idle_time request =
     (case request of
        Inl err \<Rightarrow> Inl err
      | Inr resp \<Rightarrow>
          (case (case json resp of
                   Inl e \<Rightarrow> Inl e
                 | Inr reply \<Rightarrow>
                     (case subscript reply ''result'' of
                        Inl e \<Rightarrow> Inl e
                      | Inr r \<Rightarrow> subscript r (''System.IdleTime('' @ str_of_int idle_time @ '')''))) of
             Inr v \<Rightarrow> Inr (if truthy v then None else Some ''Someone interacts with Kodi'')
           | Inl e \<Rightarrow> if e = KeyError \<or> e = TypeError \<or> e = JSONDecodeError
                      then Inl TemporaryCheckError else Inl (Unhandled e)))"

section \<open>Login sessions (\<^verbatim>\<open>LogindSessionsIdle\<close> in \<^verbatim>\<open>checks/systemd.py\<close>)\<close>

text \<open>
  Modelled from the spec: \<^verbatim>\<open>list_logind_sessions\<close> (\<^verbatim>\<open>util/systemd.py\<close>) is not
  among the sources. Per the specification it lists the login sessions, each with its
  id and the properties Type, State and IdleHint, or fails with LogindDBusException
  when the bus cannot be reached. Its outcome is an argument of the check.
\<close>

record session_properties =
  Type :: string
  State :: string
  IdleHint :: bool

record LogindSessionsIdle =
  types :: "string list"
  states :: "string list"

text \<open>\<^verbatim>\<open>s.split(",")\<close>; the second argument is the piece read so far, reversed.\<close>

fun split_from :: "char \<Rightarrow> string \<Rightarrow> string \<Rightarrow> string list" where
  "split_from sep cur [] = [rev cur]"
| "split_from sep cur (c # cs) =
     (if c = sep then rev cur # split_from sep [] cs else split_from sep (c # cur) cs)"

definition split :: "char \<Rightarrow> string \<Rightarrow> string list" where
  "split sep s = split_from sep [] s"

definition LogindSessionsIdle_create :: "config \<Rightarrow> LogindSessionsIdle" where
  "LogindSessionsIdle_create cfg =
     \<lparr>types = map (strip str_space) (split (CHR '','') (config_get cfg ''types'' ''tty,x11,wayland'')),
      states = map (strip str_space) (split (CHR '','') (config_get cfg ''states'' ''active,online''))\<rparr>"

text \<open>\<^verbatim>\<open>LogindSessionsIdle._list_logind_sessions\<close>.\<close>

definition list_sessions ::
  "pyexn + (string \<times> session_properties) list \<Rightarrow> check_error + (string \<times> session_properties) list" where
  "list_sessions listing =
     (case listing of
        Inr sessions \<Rightarrow> Inr sessions
      | Inl e \<Rightarrow> if e = LogindDBusException then Inl TemporaryCheckError else Inl (Unhandled e))"

text \<open>The loop of \<^verbatim>\<open>LogindSessionsIdle.check\<close> over the sessions in the order listed.\<close>

fun sessions_loop :: "LogindSessionsIdle \<Rightarrow> (string \<times> session_properties) list \<Rightarrow> string option" where
  "sessions_loop self [] = None"
| "sessions_loop self ((session_id, properties) # rest) =
     (if Type properties \<notin> set (types self) then sessions_loop self rest
      else if State properties \<notin> set (states self) then sessions_loop self rest
      else if \<not> IdleHint properties
        then Some (''Login session '' @ session_id @ '' is not idle'')
      else sessions_loop self rest)"

definition LogindSessionsIdle_check ::
  "LogindSessionsIdle \<Rightarrow> pyexn + (string \<times> session_properties) list \<Rightarrow> check_error + string option" where
  "LogindSessionsIdle_check self listing =
     (case list_sessions listing of
        Inl err \<Rightarrow> Inl err
      | Inr sessions \<Rightarrow> Inr (sessions_loop self sessions))"

text \<open>
  The algorithm as the specification words it: skip the sessions whose type or state
  is not allowed; the first remaining session whose idle hint is false is the one
  reported.
\<close>

definition allowed_session :: "LogindSessionsIdle \<Rightarrow> string \<times> session_properties \<Rightarrow> bool" where
  "allowed_session self s = (Type (snd s) \<in> set (types self) \<and> State (snd s) \<in> set (states self))"

definition first_not_idle ::
  "LogindSessionsIdle \<Rightarrow> (string \<times> session_properties) list \<Rightarrow> (string \<times> session_properties) option" where
  "first_not_idle self sessions =
     find (\<lambda>s. \<not> IdleHint (snd s)) (filter (allowed_session self) sessions)"

section \<open>Timer units (\<^verbatim>\<open>next_timer_executions\<close> in \<^verbatim>\<open>checks/systemd.py\<close>)\<close>

text \<open>
  What the function reads from the bus: the units that \<^verbatim>\<open>ListUnits\<close> returns, each
  with its name (item 0) and its object path (item 6), and for an object path the two
  properties of the timer interface that are used, unsigned 64-bit numbers of
  microseconds. The bus is taken to answer. \<^verbatim>\<open>datetime.now(tz=timezone.utc)\<close> is
  a reading of the clock; the loop reads it at most once for each timer, and
  \<open>clock i\<close> is the reading, in microseconds since the epoch, while the loop handles
  the timer number \<open>i\<close>.
\<close>

record timer_properties =
  NextElapseUSecRealtime :: "64 word"
  NextElapseUSecMonotonic :: "64 word"

record systemd_bus =
  ListUnits :: "(string \<times> string) list"
  GetAll :: "string \<Rightarrow> timer_properties"

definition now_utc :: "int \<Rightarrow> datetime" where
  "now_utc us = \<lparr>wall_us = us, utcoffset = Some 0\<rparr>"

text \<open>
  \<^verbatim>\<open>n / 1000000\<close> of an unsigned 64-bit number: the float nearest to the
  quotient.
\<close>

definition usec_to_seconds :: "64 word \<Rightarrow> pyfloat" where
  "usec_to_seconds n = binary64 (of_int (uint n) / 1000000)"

text \<open>\<^verbatim>\<open>timers = [unit for unit in units if unit[0].endswith(".timer")]\<close>\<close>

definition timer_units :: "systemd_bus \<Rightarrow> (string \<times> string) list" where
  "timer_units bus = filter (\<lambda>unit. suffix ''.timer'' (fst unit)) (ListUnits bus)"

text \<open>
  The loop over the timers: \<open>i\<close> is the number of the timer at the head of the list,
  \<open>result\<close> is the dict built so far, in the order of insertion.
\<close>

fun timers_loop ::
  "systemd_bus \<Rightarrow> (nat \<Rightarrow> int) \<Rightarrow> nat \<Rightarrow> (string \<times> datetime) list \<Rightarrow> (string \<times> string) list
   \<Rightarrow> pyexn + (string \<times> datetime) list" where
  "timers_loop bus clock i result [] = Inr result"
| "timers_loop bus clock i result (timer # timers) =
     (let props = GetAll bus (snd timer)
      in if NextElapseUSecRealtime props \<noteq> 0
         then (case fromtimestamp_utc (usec_to_seconds (NextElapseUSecRealtime props)) of
                 Inl e \<Rightarrow> Inl e
               | Inr next_time \<Rightarrow>
                   timers_loop bus clock (Suc i) (AList.update (fst timer) next_time result) timers)
         else if NextElapseUSecMonotonic props \<noteq> 0
         then (case timedelta_kw ''seconds'' (usec_to_seconds (NextElapseUSecMonotonic props)) of
                 Inl e \<Rightarrow> Inl e
               | Inr delta \<Rightarrow>
                   (case datetime_add (now_utc (clock i)) delta of
                      Inl e \<Rightarrow> Inl e
                    | Inr next_time \<Rightarrow>
                        timers_loop bus clock (Suc i) (AList.update (fst timer) next_time result)
                          timers))
         else timers_loop bus clock (Suc i) result timers)"

definition next_timer_executions ::
  "systemd_bus \<Rightarrow> (nat \<Rightarrow> int) \<Rightarrow> pyexn + (string \<times> datetime) list" where
  "next_timer_executions bus clock = timers_loop bus clock 0 [] (timer_units bus)"

text \<open>
  The conversion rule as the specification words it, for one timer unit and the
  current time \<open>now\<close>: the realtime property, when it is not zero, is the instant in
  microseconds since the epoch in UTC; otherwise the monotonic property, when it is not
  zero, is a number of microseconds from now; otherwise there is no instant.
\<close>

definition next_elapse :: "int \<Rightarrow> timer_properties \<Rightarrow> datetime option" where
  "next_elapse now props =
     (if NextElapseUSecRealtime props \<noteq> 0
        then Some \<lparr>wall_us = uint (NextElapseUSecRealtime props), utcoffset = Some 0\<rparr>
      else if NextElapseUSecMonotonic props \<noteq> 0
        then Some \<lparr>wall_us = now + uint (NextElapseUSecMonotonic props), utcoffset = Some 0\<rparr>
      else None)"

text \<open>
  Below \<open>2 ^ 33\<close> seconds, in the year 2242, a float holds every whole number of
  microseconds to less than half a microsecond, and the conversions of
  \<^verbatim>\<open>n / 1000000\<close> seconds back to microseconds are exact.
\<close>

definition EXACT_USEC_LIMIT :: int where
  "EXACT_USEC_LIMIT = 8589934592000000"

text \<open>
  The property of a timer unit that the loop converts is below that limit, and the
  current time plus a monotonic property is a datetime.
\<close>

definition elapse_exact :: "int \<Rightarrow> timer_properties \<Rightarrow> bool" where
  "elapse_exact now props =
     (if NextElapseUSecRealtime props \<noteq> 0
        then uint (NextElapseUSecRealtime props) < EXACT_USEC_LIMIT
      else if NextElapseUSecMonotonic props \<noteq> 0
        then uint (NextElapseUSecMonotonic props) < EXACT_USEC_LIMIT \<and>
             datetime_in_range (now + uint (NextElapseUSecMonotonic props))
      else True)"

text \<open>The names and instants of the timers from number \<open>i\<close> on that have an instant.\<close>

fun elapses ::
  "systemd_bus \<Rightarrow> (nat \<Rightarrow> int) \<Rightarrow> nat \<Rightarrow> (string \<times> string) list \<Rightarrow> (string \<times> datetime) list" where
  "elapses bus clock i [] = []"
| "elapses bus clock i (timer # timers) =
     (case next_elapse (clock i) (GetAll bus (snd timer)) of
        None \<Rightarrow> elapses bus clock (Suc i) timers
      | Some d \<Rightarrow> (fst timer, d) # elapses bus clock (Suc i) timers)"

text \<open>
  Assigning the items of a list to the dict \<open>result\<close>, one after the other; what the
  loop does with the timers that have an instant.
\<close>

definition insert_elapses ::
  "(string \<times> datetime) list \<Rightarrow> (string \<times> datetime) list \<Rightarrow> (string \<times> datetime) list" where
  "insert_elapses es result = fold (\<lambda>e. AList.update (fst e) (snd e)) es result"

text \<open>
  A bus with four units: a timer with both properties set, a service, a timer with
  the monotonic property only and a timer with neither.
\<close>

definition example_bus :: systemd_bus where
  "example_bus =
     \<lparr>ListUnits = [(''backup.timer'', ''/unit/backup''), (''ssh.service'', ''/unit/ssh''),
                   (''boot.timer'', ''/unit/boot''), (''idle.timer'', ''/unit/idle'')],
      GetAll = (\<lambda>path.
        if path = ''/unit/backup''
          then \<lparr>NextElapseUSecRealtime = 1700000000000000, NextElapseUSecMonotonic = 5\<rparr>
        else if path = ''/unit/boot''
          then \<lparr>NextElapseUSecRealtime = 0, NextElapseUSecMonotonic = 60000000\<rparr>
        else \<lparr>NextElapseUSecRealtime = 0, NextElapseUSecMonotonic = 0\<rparr>)\<rparr>"

text \<open>A bus with two timers that have a realtime instant each.\<close>

definition two_timers_bus :: systemd_bus where
  "two_timers_bus =
     \<lparr>ListUnits = [(''cron.timer'', ''/unit/cron''), (''backup.timer'', ''/unit/backup'')],
      GetAll = (\<lambda>path.
        if path = ''/unit/backup''
          then \<lparr>NextElapseUSecRealtime = 1700000000000000, NextElapseUSecMonotonic = 0\<rparr>
        else \<lparr>NextElapseUSecRealtime = 1800000000000000, NextElapseUSecMonotonic = 0\<rparr>)\<rparr>"

text \<open>
  A bus with one timer that never elapses: both properties hold the largest 64-bit
  number, which the init system uses for infinity. A clock that stands at the epoch.
\<close>

definition never_elapsing_bus :: systemd_bus where
  "never_elapsing_bus =
     \<lparr>ListUnits = [(''never.timer'', ''/unit/never'')],
      GetAll = (\<lambda>path. \<lparr>NextElapseUSecRealtime = 18446744073709551615,
                             NextElapseUSecMonotonic = 18446744073709551615\<rparr>)\<rparr>"

definition epoch_clock :: "nat \<Rightarrow> int" where
  "epoch_clock i = 0"

text \<open>
  A bus with one timer whose realtime property is one microsecond after \<open>2 ^ 33\<close>
  seconds.
\<close>

definition year_2242_bus :: systemd_bus where
  "year_2242_bus =
     \<lparr>ListUnits = [(''late.timer'', ''/unit/late'')],
      GetAll = (\<lambda>path. \<lparr>NextElapseUSecRealtime = 8589934592000001,
                             NextElapseUSecMonotonic = 0\<rparr>)\<rparr>"

section \<open>Wakeup checks (\<^verbatim>\<open>checks/wakeup.py\<close>)\<close>

subsection \<open>File\<close>

text \<open>
  \<^verbatim>\<open>File.check\<close>. The first argument is the outcome of \<^verbatim>\<open>self._path.read_text()\<close>:
  the text of the file, or the exception raised (FileNotFoundError when there is no
  file, another OSError, or UnicodeDecodeError). The second is the reference time.
\<close>

definition File_check :: "pyexn + string \<Rightarrow> datetime \<Rightarrow> check_error + datetime option" where
  "File_check read_text timestamp =
     (case (case read_text of
              Inl e \<Rightarrow> Inl e
            | Inr text \<Rightarrow>
                (case index0 (splitlines str_linebreak text) of
                   Inl e \<Rightarrow> Inl e
                 | Inr first_line \<Rightarrow>
                     (case float_of_str (strip str_space first_line) of
                        Inl e \<Rightarrow> Inl e
                      | Inr t \<Rightarrow> fromtimestamp_utc t))) of
        Inr d \<Rightarrow> Inr (Some d)
      | Inl e \<Rightarrow> if e = FileNotFoundError then Inr None
                 else if is_ValueError e \<or> is_IOError e then Inl TemporaryCheckError
                 else Inl (Unhandled e))"

subsection \<open>Command\<close>

text \<open>
  \<^verbatim>\<open>subprocess.check_output\<close> returns the standard output of a process that exits
  with status 0 and raises CalledProcessError otherwise.
\<close>

definition check_output :: "int \<times> string \<Rightarrow> pyexn + string" where
  "check_output proc =
     (if fst proc = 0 then Inr (snd proc) else Inl (CalledProcessError (fst proc)))"

text \<open>
  Modelled from the spec: \<^verbatim>\<open>raise_severe_if_command_not_found\<close>
  (\<^verbatim>\<open>util/subprocess.py\<close>) is not among the sources. Per the specification an absent
  binary is told apart from a command that runs and fails, and raises
  SevereCheckError. How an exit status tells that the binary is absent is the
  parameter \<open>not_found\<close>.
\<close>

definition raise_severe_if_command_not_found :: "(int \<Rightarrow> bool) \<Rightarrow> int \<Rightarrow> check_error option" where
  "raise_severe_if_command_not_found not_found returncode =
     (if not_found returncode then Some SevereCheckError else None)"

text \<open>
  \<^verbatim>\<open>Command.check\<close>. The process is given by its exit status and its standard
  output.
\<close>

definition Command_check ::
  "(int \<Rightarrow> bool) \<Rightarrow> int \<times> string \<Rightarrow> datetime \<Rightarrow> check_error + datetime option" where
  "Command_check not_found proc timestamp =
     (case (case check_output proc of
              Inl e \<Rightarrow> Inl e
            | Inr out \<Rightarrow>
                (case index0 (splitlines bytes_linebreak out) of
                   Inl e \<Rightarrow> Inl e
                 | Inr output \<Rightarrow>
                     if strip bytes_space output \<noteq> []
                     then (case float_of_bytes (strip bytes_space output) of
                             Inl e \<Rightarrow> Inl e
                           | Inr t \<Rightarrow> (case fromtimestamp_utc t of
                                        Inl e \<Rightarrow> Inl e
                                      | Inr d \<Rightarrow> Inr (Some d)))
                     else Inr None)) of
        Inr r \<Rightarrow> Inr r
      | Inl (CalledProcessError returncode) \<Rightarrow>
          (case raise_severe_if_command_not_found not_found returncode of
             Some err \<Rightarrow> Inl err
           | None \<Rightarrow> Inl TemporaryCheckError)
      | Inl e \<Rightarrow> if is_ValueError e then Inl TemporaryCheckError else Inl (Unhandled e))"

subsection \<open>Periodic\<close>

text \<open>
  \<^verbatim>\<open>Periodic.create\<close> returns the check, given by its \<^verbatim>\<open>_delta\<close>. The unit is read
  before the value, and \<^verbatim>\<open>timedelta\<close> is called last.
\<close>

definition Periodic_create :: "config \<Rightarrow> check_error + timedelta" where
  "Periodic_create cfg =
     (case (case config_item cfg ''unit'' of
              Inl e \<Rightarrow> Inl e
            | Inr unit \<Rightarrow>
                (case config_item cfg ''value'' of
                   Inl e \<Rightarrow> Inl e
                 | Inr v \<Rightarrow>
                     (case float_of_str v of
                        Inl e \<Rightarrow> Inl e
                      | Inr x \<Rightarrow> timedelta_kw unit x))) of
        Inr delta \<Rightarrow> Inr delta
      | Inl e \<Rightarrow> if is_ValueError e \<or> e = KeyError \<or> e = TypeError then Inl ConfigurationError
                 else Inl (Unhandled e))"

text \<open>\<^verbatim>\<open>Periodic.check\<close>: no \<^verbatim>\<open>except\<close> clause.\<close>

definition Periodic_check :: "timedelta \<Rightarrow> datetime \<Rightarrow> check_error + datetime option" where
  "Periodic_check delta timestamp =
     (case datetime_add timestamp delta of
        Inl e \<Rightarrow> Inl (Unhandled e)
      | Inr d \<Rightarrow> Inr (Some d))"

text \<open>The configuration with the largest delta that \<^verbatim>\<open>timedelta\<close> has.\<close>

definition largest_delta_config :: config where
  "largest_delta_config = [''unit'' \<mapsto> ''days'', ''value'' \<mapsto> ''999999999'']"

subsection \<open>SystemdTimer\<close>

text \<open>
  \<^verbatim>\<open>SystemdTimer.check\<close>. The compiled pattern is given by what its method
  \<^verbatim>\<open>match\<close> decides for a name: whether the expression matches at the start of it.
  The call of \<^verbatim>\<open>next_timer_executions\<close> is outside the \<^verbatim>\<open>try\<close>.
\<close>

definition SystemdTimer_check ::
  "(string \<Rightarrow> bool) \<Rightarrow> systemd_bus \<Rightarrow> (nat \<Rightarrow> int) \<Rightarrow> datetime \<Rightarrow> check_error + datetime option" where
  "SystemdTimer_check match bus clock timestamp =
     (case next_timer_executions bus clock of
        Inl e \<Rightarrow> Inl (Unhandled e)
      | Inr executions \<Rightarrow>
          (let matching_executions = map snd (filter (\<lambda>item. match (fst item)) executions)
           in case py_min matching_executions of
                Inr d \<Rightarrow> Inr (Some d)
              | Inl e \<Rightarrow> if is_ValueError e then Inr None else Inl (Unhandled e)))"

text \<open>
  The instants of the timer units whose name the pattern matches, and the earliest of
  a list of instants in UTC, the result that the specification gives for the check.
\<close>

definition matching_elapses :: "(string \<Rightarrow> bool) \<Rightarrow> systemd_bus \<Rightarrow> (nat \<Rightarrow> int) \<Rightarrow> datetime list" where
  "matching_elapses match bus clock =
     List.map_filter
       (\<lambda>j. if match (fst (timer_units bus ! j))
            then next_elapse (clock j) (GetAll bus (snd (timer_units bus ! j)))
            else None)
       [0..<length (timer_units bus)]"

definition earliest_utc :: "datetime list \<Rightarrow> datetime option" where
  "earliest_utc ds =
     (if ds = [] then None
      else Some \<lparr>wall_us = Min (set (map wall_us ds)), utcoffset = Some 0\<rparr>)"

subsection \<open>XPath and XPathDelta\<close>

text \<open>
  Modelled from the spec: \<^verbatim>\<open>XPathMixin\<close> (\<^verbatim>\<open>checks/util.py\<close>) is not among the
  sources. Per the specification \<^verbatim>\<open>evaluate\<close> fetches the document and returns the
  sequence of matches of the query, strings or nodes that are not strings, and a failure
  to fetch or to parse is a TemporaryCheckError; \<^verbatim>\<open>collect_init_args\<close> reads the
  options of the fetch and of the query and fails with ConfigurationError. Their
  outcomes are arguments of \<^verbatim>\<open>check\<close> and of \<^verbatim>\<open>create\<close>.
\<close>

datatype xresult = XStr string | XNode

text \<open>\<^verbatim>\<open>float(result)\<close>: TypeError for a result that is not a string.\<close>

fun float_of_result :: "xresult \<Rightarrow> pyexn + pyfloat" where
  "float_of_result (XStr s) = float_of_str s"
| "float_of_result XNode = Inl TypeError"

text \<open>The two classes; an \<^verbatim>\<open>XPathDelta\<close> has its \<^verbatim>\<open>_unit\<close>.\<close>

datatype xpath_check = XPath | XPathDelta string

text \<open>\<^verbatim>\<open>XPath.convert_result\<close> and its override \<^verbatim>\<open>XPathDelta.convert_result\<close>.\<close>

fun convert_result :: "xpath_check \<Rightarrow> xresult \<Rightarrow> datetime \<Rightarrow> pyexn + datetime" where
  "convert_result XPath result timestamp =
     (case float_of_result result of
        Inl e \<Rightarrow> Inl e
      | Inr t \<Rightarrow> fromtimestamp_utc t)"
| "convert_result (XPathDelta unit) result timestamp =
     (case float_of_result result of
        Inl e \<Rightarrow> Inl e
      | Inr x \<Rightarrow> (case timedelta_kw unit x of
                     Inl e \<Rightarrow> Inl e
                   | Inr delta \<Rightarrow> datetime_add timestamp delta))"

text \<open>
  The offset that a match stands for: the match read as a number, in the unit of the
  check. It is the first half of \<^verbatim>\<open>XPathDelta.convert_result\<close>.
\<close>

definition offset_of_result :: "string \<Rightarrow> xresult \<Rightarrow> pyexn + timedelta" where
  "offset_of_result unit result =
     (case float_of_result result of Inl e \<Rightarrow> Inl e | Inr x \<Rightarrow> timedelta_kw unit x)"

text \<open>\<^verbatim>\<open>XPath.check\<close>, inherited by \<^verbatim>\<open>XPathDelta\<close>. The call of \<^verbatim>\<open>evaluate\<close> is outside the \<^verbatim>\<open>try\<close>.\<close>

definition XPath_check ::
  "xpath_check \<Rightarrow> check_error + xresult list \<Rightarrow> datetime \<Rightarrow> check_error + datetime option" where
  "XPath_check self evaluate timestamp =
     (case evaluate of
        Inl err \<Rightarrow> Inl err
      | Inr matches \<Rightarrow>
          if matches \<noteq> []
          then (case min_gen (\<lambda>m. convert_result self m timestamp) matches of
                  Inr d \<Rightarrow> Inr (Some d)
                | Inl e \<Rightarrow> if e = TypeError then Inl TemporaryCheckError
                           else if is_ValueError e then Inl TemporaryCheckError
                           else Inl (Unhandled e))
          else Inr None)"

text \<open>
  \<^verbatim>\<open>XPathDelta.create\<close> with \<^verbatim>\<open>XPathDelta.__init__\<close>, which raises ValueError for a
  unit that is not in \<^verbatim>\<open>UNITS\<close>. The first argument is the outcome of
  \<^verbatim>\<open>XPath.collect_init_args(config)\<close>.
\<close>

definition XPathDelta_create :: "check_error + 'a \<Rightarrow> config \<Rightarrow> check_error + xpath_check" where
  "XPathDelta_create collect_init_args cfg =
     (case collect_init_args of
        Inl (Unhandled e) \<Rightarrow> if is_ValueError e then Inl ConfigurationError else Inl (Unhandled e)
      | Inl err \<Rightarrow> Inl err
      | Inr args \<Rightarrow>
          (let unit = config_get cfg ''unit'' ''minutes''
           in if unit \<in> set UNITS then Inr (XPathDelta unit) else Inl ConfigurationError))"

section \<open>Properties of the library model\<close>

subsection \<open>Rounding to binary64\<close>

text \<open>Rounding to an integer.\<close>

lemma round_half_even_of_int: "round_half_even (of_int n) = n"
  by (simp add: round_half_even_def)

lemma round_half_even_error: "\<bar>of_int (round_half_even y) - y\<bar> \<le> 1 / 2"
proof -
  have "of_int \<lfloor>y\<rfloor> \<le> y" "y < of_int \<lfloor>y\<rfloor> + 1" by linarith+
  then show ?thesis
    by (auto simp add: round_half_even_def Let_def abs_le_iff)
qed

lemma round_half_even_near:
  assumes "\<bar>y - of_int m\<bar> < 1 / 2"
  shows "round_half_even y = m"
proof -
  have "\<bar>of_int (round_half_even y) - (of_int m :: rat)\<bar> < 1"
    using round_half_even_error [of y] assms by linarith
  then have "\<bar>(of_int (round_half_even y - m) :: rat)\<bar> < 1" by simp
  then have "\<bar>round_half_even y - m\<bar> < 1"
    by (metis of_int_abs of_int_less_1_iff)
  then show ?thesis by simp
qed

text \<open>Powers of two, and the exponent of a positive number.\<close>

lemma pow2_pos: "0 < pow2 k"
  by (simp add: pow2_def)

lemma pow2_mono: "j \<le> k \<Longrightarrow> pow2 j \<le> pow2 k"
proof -
  assume jk: "j \<le> k"
  have eq: "pow2 i = 2 powi i" for i
    by (simp add: pow2_def power_int_def power_one_over)
  show ?thesis unfolding eq using jk by (intro power_int_increasing) simp_all
qed

lemma pow2_nat: "pow2 (int k) = 2 ^ k"
  by (simp add: pow2_def)

lemma pow2_add: "pow2 (j + k) = pow2 j * pow2 k"
proof -
  have eq: "pow2 i = 2 powi i" for i
    by (simp add: pow2_def power_int_def power_one_over)
  show ?thesis unfolding eq by (simp add: power_int_add)
qed

lemma exponent_less:
  assumes "0 < a" and "a < 2 ^ k"
  shows "exponent a < int k"
proof (cases "1 \<le> a")
  case True
  have "\<lfloor>a\<rfloor> < 2 ^ k"
    using assms(2) by (simp add: floor_less_iff)
  then have "bitlen \<lfloor>a\<rfloor> \<le> int k"
    by (simp add: bitlen_le_iff_power)
  then show ?thesis using True by (simp add: exponent_def)
next
  case False
  then have "1 < 1 / a" using assms(1) by simp
  then have "2 \<le> \<lceil>1 / a\<rceil>" by (simp add: less_ceiling_iff)
  then have "1 \<le> bitlen (\<lceil>1 / a\<rceil> - 1)"
    by (simp add: bitlen_ge_iff_power)
  then show ?thesis using False by (simp add: exponent_def)
qed

text \<open>
  The exponent \<open>e\<close> of a positive number \<open>a\<close> is the one with
  \<open>2 ^ e \<le> a < 2 ^ (e + 1)\<close>.
\<close>

lemma bitlen_pos_bounds:
  assumes "0 < x"
  obtains k where "bitlen x = int k + 1" and "(2::rat) ^ k \<le> of_int x"
    and "(of_int x :: rat) + 1 \<le> 2 ^ Suc k"
proof -
  have b: "1 \<le> bitlen x" using assms by (simp add: bitlen_ge_iff_power)
  define k where "k = nat (bitlen x - 1)"
  have bk: "bitlen x = int k + 1" using b by (simp add: k_def)
  have "2 ^ k \<le> x" "x < 2 ^ Suc k"
    using bitlen_bounds [OF assms] unfolding bk by (simp_all add: nat_add_distrib)
  then have "2 ^ k \<le> x" "x + 1 \<le> 2 ^ Suc k" by simp_all
  then have "(of_int (2 ^ k) :: rat) \<le> of_int x" "(of_int (x + 1) :: rat) \<le> of_int (2 ^ Suc k)"
    by (simp_all only: of_int_le_iff)
  then have "(2::rat) ^ k \<le> of_int x" "(of_int x :: rat) + 1 \<le> 2 ^ Suc k"
    by (simp_all only: of_int_power of_int_numeral of_int_add of_int_1)
  then show ?thesis using bk that by blast
qed

lemma exponent_bounds:
  assumes "0 < a"
  shows "pow2 (exponent a) \<le> a \<and> a < pow2 (exponent a + 1)"
proof (cases "1 \<le> a")
  case True
  then have "0 < \<lfloor>a\<rfloor>" by simp
  then obtain k where k: "bitlen \<lfloor>a\<rfloor> = int k + 1" "(2::rat) ^ k \<le> of_int \<lfloor>a\<rfloor>"
    "(of_int \<lfloor>a\<rfloor> :: rat) + 1 \<le> 2 ^ Suc k"
    by (rule bitlen_pos_bounds)
  have r: "(of_int \<lfloor>a\<rfloor> :: rat) \<le> a" "a < of_int \<lfloor>a\<rfloor> + 1"
    using floor_correct [of a] by simp_all
  have "(2::rat) ^ k \<le> a" "a < 2 ^ Suc k"
    using k(2,3) r by linarith+
  moreover have "exponent a = int k"
    using True by (simp add: exponent_def k(1))
  ultimately show ?thesis
    by (simp add: pow2_def nat_add_distrib)
next
  case False
  have "1 < 1 / a" using False assms by simp
  then have "2 \<le> \<lceil>1 / a\<rceil>" by (simp add: less_ceiling_iff)
  then have "0 < \<lceil>1 / a\<rceil> - 1" by simp
  then obtain k where k: "bitlen (\<lceil>1 / a\<rceil> - 1) = int k + 1"
    "(2::rat) ^ k \<le> of_int (\<lceil>1 / a\<rceil> - 1)"
    "(of_int (\<lceil>1 / a\<rceil> - 1) :: rat) + 1 \<le> 2 ^ Suc k"
    by (rule bitlen_pos_bounds)
  have r: "(of_int (\<lceil>1 / a\<rceil> - 1) :: rat) < 1 / a" "1 / a \<le> of_int (\<lceil>1 / a\<rceil> - 1) + 1"
    using ceiling_correct [of "1 / a"] by simp_all
  have lo: "(2::rat) ^ k < 1 / a" and hi: "1 / a \<le> 2 ^ Suc k"
    using k(2,3) r by linarith+
  have "a * 2 ^ k < 1" using lo assms by (simp add: field_simps)
  then have up: "a < 1 / 2 ^ k" by (simp add: field_simps)
  have "1 \<le> a * 2 ^ Suc k" using hi assms by (simp add: field_simps)
  then have low: "1 / 2 ^ Suc k \<le> a" by (simp add: field_simps)
  have e: "exponent a = - int (Suc k)"
    using False by (simp add: exponent_def k(1))
  have neg: "pow2 (- int n) = 1 / 2 ^ n" for n
    by (cases n) (simp_all add: pow2_def del: of_nat_Suc)
  have "- int (Suc k) + 1 = - int k" by simp
  then have "pow2 (- int (Suc k) + 1) = 1 / 2 ^ k"
    by (simp only: neg)
  then show ?thesis
    using low up unfolding e by (simp only: neg)
qed

text \<open>
  Rounding moves a number below \<open>2 ^ k\<close> by at most \<open>2 ^ (k - 54)\<close>, half the
  distance of the floats there, and keeps an integer of at most 53 bits.
\<close>

lemma round64_error:
  assumes "0 < a" and "a < 2 ^ k"
  shows "\<bar>round64 a - a\<bar> \<le> 2 ^ k / 2 ^ 54"
proof -
  define e where "e = max (exponent a) (- 1022)"
  define ulp where "ulp = pow2 (e - 52)"
  have e: "e \<le> int k - 1"
    using exponent_less [OF assms] by (simp add: e_def)
  have ulp_pos: "0 < ulp" by (simp add: ulp_def pow2_pos)
  have "ulp \<le> pow2 (int k - 53)"
    unfolding ulp_def using e by (intro pow2_mono) simp
  also have "\<dots> = 2 ^ k / 2 ^ 53"
    using pow2_add [of "int k" "- 53"] by (simp add: pow2_nat) (simp add: pow2_def)
  finally have ulp_le: "ulp \<le> 2 ^ k / 2 ^ 53" .
  have r: "round64 a = of_int (round_half_even (a / ulp)) * ulp"
    using assms(1) by (simp add: round64_def Let_def e_def ulp_def)
  have "round64 a - a = (of_int (round_half_even (a / ulp)) - a / ulp) * ulp"
    using ulp_pos by (simp add: r left_diff_distrib)
  then have "\<bar>round64 a - a\<bar> = \<bar>of_int (round_half_even (a / ulp)) - a / ulp\<bar> * ulp"
    using ulp_pos by (simp add: abs_mult)
  also have "\<dots> \<le> 1 / 2 * ulp"
    using round_half_even_error [of "a / ulp"] ulp_pos by (intro mult_right_mono) simp_all
  also have "\<dots> \<le> 1 / 2 * (2 ^ k / 2 ^ 53)"
    using ulp_le by simp
  finally show ?thesis by simp
qed

lemma round64_of_int:
  assumes "\<bar>n\<bar> < 2 ^ 53"
  shows "round64 (of_int n) = of_int n"
proof (cases "n = 0")
  case True
  then show ?thesis by (simp add: round64_def)
next
  case False
  define a :: rat where "a = \<bar>of_int n\<bar>"
  define e where "e = max (exponent a) (- 1022)"
  have a: "a = of_int \<bar>n\<bar>" "0 < a" "a < 2 ^ 53"
    using False assms by (simp_all add: a_def)
  have e: "e \<le> 52"
    using exponent_less [OF a(2) a(3)] by (simp add: e_def)
  obtain j where j: "52 - e = int j"
    using e by (metis diff_ge_0_iff_ge nonneg_int_cases)
  have ulp: "pow2 (e - 52) = 1 / 2 ^ j"
  proof -
    have "e - 52 = - int j" using j by simp
    then show ?thesis by (simp add: pow2_def)
  qed
  have "a / pow2 (e - 52) = of_int (\<bar>n\<bar> * 2 ^ j)"
    by (simp add: ulp a(1))
  then have "of_int (round_half_even (a / pow2 (e - 52))) * pow2 (e - 52) = a"
    by (simp add: round_half_even_of_int del: of_int_mult) (simp add: ulp a(1))
  then show ?thesis
    using False by (simp add: round64_def Let_def a_def [symmetric] e_def [symmetric])
       (simp add: a_def)
qed

text \<open>
  A number \<open>n\<close> of microseconds below \<open>2 ^ 33\<close> seconds and the float
  \<open>d\<close> of \<^verbatim>\<open>n / 1000000\<close>: the integer part of \<open>d\<close> is the seconds of \<open>n\<close>, and
  the fraction of \<open>d\<close> times 1000000, as a float, is less than half a microsecond
  from the microseconds of \<open>n\<close>.
\<close>

lemma round64_usec:
  fixes n :: int
  assumes "0 \<le> n" and "n < EXACT_USEC_LIMIT"
  defines "d \<equiv> round64 (of_int n / 1000000)"
  shows "trunc d = n div 1000000"
    and "\<bar>(d - of_int (n div 1000000)) * 1000000 - of_int (n mod 1000000)\<bar> \<le> 1000000 / 2 ^ 21"
    and "0 \<le> d" and "d < 2 ^ 34"
    and "d = of_int (n div 1000000) \<longleftrightarrow> n mod 1000000 = 0"
proof -
  define k where "k = n div 1000000"
  define m where "m = n mod 1000000"
  define x :: rat where "x = of_int n / 1000000"
  have n: "n = k * 1000000 + m" and m: "0 \<le> m" "m < 1000000"
    by (simp_all add: k_def m_def)
  have "n \<le> 8589934591999999"
    using assms(2) by (simp add: EXACT_USEC_LIMIT_def)
  then have "n div 1000000 \<le> 8589934591999999 div 1000000"
    by (intro zdiv_mono1) simp_all
  then have k: "0 \<le> k" "k < 8589934592"
    using assms(1) by (simp_all add: k_def pos_imp_zdiv_nonneg_iff)
  have x: "x = of_int k + of_int m / 1000000"
    by (simp add: x_def n)
  have d: "d = round64 x" by (simp add: d_def x_def)
  have goal: "trunc d = k \<and> \<bar>(d - of_int k) * 1000000 - of_int m\<bar> \<le> 1000000 / 2 ^ 21
      \<and> 0 \<le> d \<and> d < 2 ^ 34 \<and> (d = of_int k \<longleftrightarrow> m = 0)"
  proof (cases "m = 0")
    case True
    then have "x = of_int k" by (simp add: x)
    moreover have "\<bar>k\<bar> < 2 ^ 53" using k by simp
    ultimately have "d = of_int k" by (simp add: d round64_of_int)
    then show ?thesis using True k by (simp add: trunc_def)
  next
    case False
    then have m1: "1 \<le> m" using m by simp
    have xlo: "of_int k + 1 / 1000000 \<le> x" and xhi: "x \<le> of_int k + 1 - 1 / 1000000"
      using m1 m(2) by (simp_all add: x field_simps) 
    have kr: "(of_int k :: rat) < 8589934592" "0 \<le> (of_int k :: rat)"
      using k by simp_all
    have x_pos: "0 < x" using xlo kr by linarith
    have x_lt: "x < 2 ^ 33" using xhi kr(1) k(2) 
    proof -
      have "(of_int k :: rat) \<le> 8589934591" using k(2) by simp
      then show ?thesis using xhi by simp
    qed
    have "\<bar>d - x\<bar> \<le> 2 ^ 33 / 2 ^ 54"
      unfolding d using x_pos x_lt by (rule round64_error)
    then have err: "\<bar>d - x\<bar> \<le> 1 / 2 ^ 21" by simp
    have err': "\<bar>d - x\<bar> \<le> 1 / 2097152" using err by simp
    have dlo: "of_int k < d" using err' xlo by linarith
    have dhi: "d < of_int k + 1" using err' xhi by linarith
    have fl: "\<lfloor>d\<rfloor> = k" using dlo dhi by (simp add: floor_unique)
    have d_pos: "0 \<le> d" using dlo kr(2) by linarith
    have "(d - of_int k) * 1000000 - of_int m = (d - x) * 1000000"
      by (simp add: x algebra_simps)
    then have "\<bar>(d - of_int k) * 1000000 - of_int m\<bar> = \<bar>(d - x) * 1000000\<bar>"
      by (simp only:)
    also have "\<dots> = \<bar>d - x\<bar> * 1000000"
      by (simp only: abs_mult abs_numeral)
    also have "\<dots> \<le> 1 / 2 ^ 21 * 1000000" using err by simp
    finally have e2: "\<bar>(d - of_int k) * 1000000 - of_int m\<bar> \<le> 1000000 / 2 ^ 21" by simp
    have "d < 2 ^ 34" using dhi kr(1) by simp
    then show ?thesis using fl d_pos e2 dlo False by (simp add: trunc_def)
  qed
  then show "trunc d = n div 1000000"
    and "\<bar>(d - of_int (n div 1000000)) * 1000000 - of_int (n mod 1000000)\<bar> \<le> 1000000 / 2 ^ 21"
    and "0 \<le> d" and "d < 2 ^ 34"
    and "d = of_int (n div 1000000) \<longleftrightarrow> n mod 1000000 = 0"
    by (simp_all add: k_def m_def)
qed

lemma usec_fraction_near:
  fixes n :: int
  assumes "0 \<le> n" and "n < EXACT_USEC_LIMIT"
  defines "d \<equiv> round64 (of_int n / 1000000)"
  shows "\<bar>round64 ((d - of_int (n div 1000000)) * 1000000) - of_int (n mod 1000000)\<bar> < 1 / 2"
proof -
  define m where "m = n mod 1000000"
  define p where "p = (d - of_int (n div 1000000)) * 1000000"
  have m: "0 \<le> m" "m < 1000000" by (simp_all add: m_def)
  have near: "\<bar>p - of_int m\<bar> \<le> 1000000 / 2 ^ 21"
    using round64_usec(2) [OF assms(1,2)] by (simp add: p_def m_def d_def)
  have zero: "p = 0 \<longleftrightarrow> m = 0"
    using round64_usec(5) [OF assms(1,2)] by (simp add: p_def m_def d_def)
  have "\<bar>round64 p - of_int m\<bar> < 1 / 2"
  proof (cases "m = 0")
    case True
    then have "p = 0" using zero by simp
    then have "round64 p = 0" by (simp add: round64_def)
    then show ?thesis using True by simp
  next
    case False
    then have m_lo: "(1::rat) \<le> of_int m" using m(1) by simp
    have m_hi: "(of_int m :: rat) \<le> 999999" using m(2) by simp
    have near': "\<bar>p - of_int m\<bar> \<le> 15625 / 32768"
      using near by simp
    have p_pos: "0 < p" using near' m_lo by linarith
    have "p < 1048576" using near' m_hi by linarith
    then have p_lt: "p < 2 ^ 20" by simp
    have "\<bar>round64 p - p\<bar> \<le> 2 ^ 20 / 2 ^ 54"
      using p_pos p_lt by (rule round64_error)
    then have "\<bar>round64 p - p\<bar> \<le> 1 / 17179869184" by simp
    then show ?thesis
      using near' by linarith
  qed
  then show ?thesis by (simp only: p_def m_def)
qed

text \<open>The float nearest to a number whose exponent is known.\<close>

lemma bitlen_eq:
  assumes "2 ^ k \<le> x" and "x < 2 ^ Suc k"
  shows "bitlen x = int k + 1"
proof (rule antisym)
  show "bitlen x \<le> int k + 1"
    using assms(2) by (simp add: bitlen_le_iff_power nat_add_distrib)
  show "int k + 1 \<le> bitlen x"
    using assms(1) by (simp add: bitlen_ge_iff_power nat_add_distrib)
qed

lemma exponent_ge1:
  assumes "2 ^ k \<le> a" and "a < 2 ^ Suc k"
  shows "exponent a = int k"
proof -
  have "(1::rat) \<le> 2 ^ k" by simp
  then have one: "1 \<le> a" using assms(1) by linarith
  have "(of_int (2 ^ k) :: rat) \<le> a" using assms(1) by simp
  then have lo: "2 ^ k \<le> \<lfloor>a\<rfloor>" by (simp only: le_floor_iff)
  have "a < of_int (2 ^ Suc k)" using assms(2) by simp
  then have hi: "\<lfloor>a\<rfloor> < 2 ^ Suc k" by (simp only: floor_less_iff)
  show ?thesis using one bitlen_eq [OF lo hi] by (simp add: exponent_def)
qed

lemma exponent_lt1:
  assumes "1 / 2 ^ Suc k \<le> a" and "a < 1 / 2 ^ k"
  shows "exponent a = - int (Suc k)"
proof -
  have pos: "0 < a"
  proof -
    have "(0::rat) < 1 / 2 ^ Suc k" by simp
    then show ?thesis using assms(1) by linarith
  qed
  have "(1::rat) / 2 ^ k \<le> 1" by simp
  then have lt1: "a < 1" using assms(2) by linarith
  have "a * 2 ^ k < 1" using assms(2) by (simp add: field_simps)
  then have "(2::rat) ^ k < 1 / a" using pos by (simp add: field_simps)
  then have "of_int (2 ^ k) < 1 / a" by simp
  then have lo: "2 ^ k < \<lceil>1 / a\<rceil>" by (simp only: less_ceiling_iff)
  have "1 \<le> a * 2 ^ Suc k" using assms(1) by (simp add: field_simps)
  then have "1 / a \<le> (2::rat) ^ Suc k" using pos by (simp add: field_simps)
  then have "1 / a \<le> of_int (2 ^ Suc k)" by simp
  then have hi: "\<lceil>1 / a\<rceil> \<le> 2 ^ Suc k" by (simp only: ceiling_le_iff)
  have "bitlen (\<lceil>1 / a\<rceil> - 1) = int k + 1"
    using lo hi by (intro bitlen_eq) simp_all
  then show ?thesis using lt1 by (simp add: exponent_def)
qed

lemma round64_ge1:
  assumes "2 ^ k \<le> a" and "a < 2 ^ Suc k"
  shows "round64 a = of_int (round_half_even (a / pow2 (int k - 52))) * pow2 (int k - 52)"
proof -
  have "(0::rat) < 2 ^ k" by simp
  then have pos: "0 < a" using assms(1) by linarith
  show ?thesis
    using pos exponent_ge1 [OF assms] by (simp add: round64_def Let_def)
qed

lemma round64_lt1:
  assumes "1 / 2 ^ Suc k \<le> a" and "a < 1 / 2 ^ k" and "k < 1022"
  shows "round64 a =
         of_int (round_half_even (a / pow2 (- int (Suc k) - 52))) * pow2 (- int (Suc k) - 52)"
proof -
  have "(0::rat) < 1 / 2 ^ Suc k" by simp
  then have pos: "0 < a" using assms(1) by linarith
  have "max (- int (Suc k)) (- 1022) = - int (Suc k)" using assms(3) by simp
  then show ?thesis
    using pos exponent_lt1 [OF assms(1,2)] by (simp add: round64_def Let_def)
qed

lemma floor_rat_numeral: "\<lfloor>numeral a / numeral b :: rat\<rfloor> = numeral a div numeral b"
  by (metis floor_divide_of_int_eq of_int_numeral)

lemma round64_zero: "round64 0 = 0"
  by (simp add: round64_def)

text \<open>Integers of at most 53 bits are floats.\<close>

lemma binary64_of_int:
  assumes "\<bar>n\<bar> < 2 ^ 53"
  shows "binary64 (of_int n) = Finite (of_int n)"
proof -
  have "(of_int \<bar>n\<bar> :: rat) < of_int (2 ^ 53)" using assms by (simp only: of_int_less_iff)
  then have "\<bar>of_int n :: rat\<bar> < 2 ^ 53" by simp
  moreover have "(2::rat) ^ 53 < 2 ^ 1024" by (intro power_strict_increasing) simp_all
  ultimately have "\<bar>of_int n :: rat\<bar> < 2 ^ 1024" by linarith
  then have "\<not> (2::rat) ^ 1024 \<le> of_int n" "\<not> (of_int n :: rat) \<le> - (2 ^ 1024)"
    by linarith+
  then show ?thesis
    by (simp only: binary64_def round64_of_int [OF assms] Let_def if_False)
qed

lemma binary64_numeral:
  "numeral k < (9007199254740992::int) \<Longrightarrow> binary64 (numeral k) = Finite (numeral k)"
  using binary64_of_int [of "numeral k"] by simp

lemma binary64_zero: "binary64 0 = Finite 0"
  using binary64_of_int [of 0] by simp

lemma binary64_one: "binary64 1 = Finite 1"
  using binary64_of_int [of 1] by simp

text \<open>
  Below \<open>2 ^ 33\<close> seconds, \<^verbatim>\<open>fromtimestamp(n / 1000000)\<close> is the instant \<open>n\<close>
  microseconds after the epoch, and \<^verbatim>\<open>timedelta(seconds=n / 1000000)\<close> is \<open>n\<close>
  microseconds.
\<close>

lemma binary64_usec:
  assumes "0 \<le> n" and "n < EXACT_USEC_LIMIT"
  shows "binary64 (of_int n / 1000000) = Finite (round64 (of_int n / 1000000))"
proof -
  let ?d = "round64 (of_int n / 1000000)"
  have d: "0 \<le> ?d" "?d < 2 ^ 34"
    using round64_usec(3,4) [OF assms] by simp_all
  have "(2::rat) ^ 34 < 2 ^ 1024" by (intro power_strict_increasing) simp_all
  then have "\<not> 2 ^ 1024 \<le> ?d" "\<not> ?d \<le> - (2 ^ 1024)"
    using d by linarith+
  then show ?thesis
    by (simp only: binary64_def Let_def if_False)
qed

lemma fromtimestamp_of_usec:
  assumes "0 \<le> n" and "n < EXACT_USEC_LIMIT"
  shows "fromtimestamp_utc (binary64 (of_int n / 1000000)) =
         Inr \<lparr>wall_us = n, utcoffset = Some 0\<rparr>"
proof -
  define d where "d = round64 (of_int n / 1000000)"
  define k where "k = n div 1000000"
  define m where "m = n mod 1000000"
  have tr: "trunc d = k"
    using round64_usec(1) [OF assms] by (simp add: d_def k_def)
  have "\<bar>round64 ((d - of_int k) * 1000000) - of_int m\<bar> < 1 / 2"
    using usec_fraction_near [OF assms] by (simp only: d_def k_def m_def)
  then have fp: "round_half_even (round64 ((d - of_int k) * 1000000)) = m"
    by (rule round_half_even_near)
  have m: "0 \<le> m" "m < 1000000" by (simp_all add: m_def)
  have n: "k * 1000000 + m = n" by (simp add: k_def m_def)
  have "n \<le> 8589934591999999"
    using assms(2) by (simp add: EXACT_USEC_LIMIT_def)
  then have "n div 1000000 \<le> 8589934591999999 div 1000000"
    by (intro zdiv_mono1) simp_all
  then have k: "0 \<le> k" "k \<le> 8589934591"
    using assms(1) by (simp_all add: k_def pos_imp_zdiv_nonneg_iff)
  have r: "datetime_in_range n"
    using assms by (simp add: datetime_in_range_def DATETIME_MIN_US_def DATETIME_MAX_US_def
        EXACT_USEC_LIMIT_def)
  have "fromtimestamp_utc (Finite d) = Inr \<lparr>wall_us = n, utcoffset = Some 0\<rparr>"
    using m k r tr fp n by (simp add: fromtimestamp_utc_def Let_def)
  then show ?thesis
    by (simp only: binary64_usec [OF assms] d_def)
qed

lemma timedelta_of_usec:
  assumes "0 \<le> n" and "n < EXACT_USEC_LIMIT"
  shows "timedelta_kw ''seconds'' (binary64 (of_int n / 1000000)) = Inr n"
proof -
  define d where "d = round64 (of_int n / 1000000)"
  define k where "k = n div 1000000"
  define m where "m = n mod 1000000"
  have tr: "trunc d = k"
    using round64_usec(1) [OF assms] by (simp add: d_def k_def)
  have n: "k * 1000000 + m = n" by (simp add: k_def m_def)
  have zero: "d - of_int k = 0 \<longleftrightarrow> m = 0"
    using round64_usec(5) [OF assms] by (simp add: d_def k_def m_def)
  have near: "\<bar>round64 ((d - of_int k) * 1000000) - of_int m\<bar> < 1 / 2"
    using usec_fraction_near [OF assms] by (simp only: d_def k_def m_def)
  have "of_int (k * 1000000) + round64 (1000000 * (d - of_int k)) - (of_int n :: rat) =
        round64 ((d - of_int k) * 1000000) - of_int m"
    by (simp add: n [symmetric] mult.commute)
  then have "\<bar>of_int (k * 1000000) + round64 (1000000 * (d - of_int k)) - (of_int n :: rat)\<bar> < 1 / 2"
    using near by (simp only:)
  then have fp: "round_half_even (of_int (k * 1000000) + round64 (1000000 * (d - of_int k))) = n"
    by (rule round_half_even_near)
  have r: "timedelta_in_range n"
    using assms by (simp add: timedelta_in_range_def TIMEDELTA_MIN_US_def TIMEDELTA_MAX_US_def
        EXACT_USEC_LIMIT_def)
  have "timedelta_kw ''seconds'' (Finite d) = Inr n"
  proof (cases "m = 0")
    case True
    then have "d - of_int k = 0" using zero by simp
    moreover have "k * 1000000 = n" using n True by simp
    ultimately show ?thesis
      using r tr by (simp add: timedelta_kw_def unit_us_def Let_def)
  next
    case False
    then have "d - of_int k \<noteq> 0" using zero by simp
    then show ?thesis
      using r fp tr by (simp add: timedelta_kw_def unit_us_def Let_def)
  qed
  then show ?thesis
    by (simp only: binary64_usec [OF assms] d_def)
qed

lemma fromtimestamp_usec:
  "uint w < EXACT_USEC_LIMIT \<Longrightarrow>
   fromtimestamp_utc (usec_to_seconds w) = Inr \<lparr>wall_us = uint w, utcoffset = Some 0\<rparr>"
  unfolding usec_to_seconds_def by (rule fromtimestamp_of_usec) simp_all

lemma timedelta_usec:
  "uint w < EXACT_USEC_LIMIT \<Longrightarrow> timedelta_kw ''seconds'' (usec_to_seconds w) = Inr (uint w)"
  unfolding usec_to_seconds_def by (rule timedelta_of_usec) simp_all


subsection \<open>Instants, minimum and numerals\<close>

lemma datetime_lt_same_offset:
  "utcoffset a = utcoffset b \<Longrightarrow> datetime_lt a b = Inr (wall_us a < wall_us b)"
  by (cases "utcoffset b") (simp_all add: datetime_lt_def)

lemma min_from_same_offset:
  assumes "\<forall>m\<in>set ms. \<exists>d. e m = Inr d \<and> utcoffset d = utcoffset cur"
  shows "\<exists>r. min_from e cur ms = Inr r \<and> utcoffset r = utcoffset cur \<and>
           (r = cur \<or> (\<exists>m\<in>set ms. e m = Inr r)) \<and>
           wall_us r \<le> wall_us cur \<and>
           (\<forall>m\<in>set ms. \<forall>d. e m = Inr d \<longrightarrow> wall_us r \<le> wall_us d)"
  using assms
proof (induction ms arbitrary: cur)
  case Nil
  then show ?case by simp
next
  case (Cons m ms)
  from Cons.prems obtain d where d: "e m = Inr d" "utcoffset d = utcoffset cur"
    by auto
  let ?c = "if wall_us d < wall_us cur then d else cur"
  have off: "utcoffset ?c = utcoffset cur" using d by simp
  have "\<forall>m\<in>set ms. \<exists>d. e m = Inr d \<and> utcoffset d = utcoffset ?c"
    using Cons.prems off by simp
  from Cons.IH [OF this] obtain r where r:
    "min_from e ?c ms = Inr r" "utcoffset r = utcoffset ?c"
    "r = ?c \<or> (\<exists>m\<in>set ms. e m = Inr r)"
    "wall_us r \<le> wall_us ?c"
    "\<forall>m\<in>set ms. \<forall>d. e m = Inr d \<longrightarrow> wall_us r \<le> wall_us d"
    by blast
  have step: "min_from e cur (m # ms) = Inr r"
    using d r(1) by (simp add: datetime_lt_same_offset)
  have le_cur: "wall_us r \<le> wall_us cur" and le_d: "wall_us r \<le> wall_us d"
    using r(4) by (auto split: if_splits)
  have orig: "r = cur \<or> (\<exists>m'\<in>set (m # ms). e m' = Inr r)"
    using r(3) d(1) by (auto split: if_splits)
  show ?case
    using step r(2) off orig le_cur le_d r(5) d(1) by auto
qed

lemma min_gen_same_offset:
  assumes "ms \<noteq> []"
    and "\<forall>m\<in>set ms. \<exists>d. e m = Inr d \<and> utcoffset d = off"
  shows "\<exists>r. min_gen e ms = Inr r \<and> utcoffset r = off \<and>
           (\<exists>m\<in>set ms. e m = Inr r) \<and>
           (\<forall>m\<in>set ms. \<forall>d. e m = Inr d \<longrightarrow> wall_us r \<le> wall_us d)"
proof -
  from assms(1) obtain m rest where ms: "ms = m # rest" by (cases ms) auto
  from assms(2) ms obtain d where d: "e m = Inr d" "utcoffset d = off" by auto
  have "\<forall>m\<in>set rest. \<exists>d'. e m = Inr d' \<and> utcoffset d' = utcoffset d"
    using assms(2) ms d(2) by simp
  from min_from_same_offset [OF this] obtain r where r:
    "min_from e d rest = Inr r" "utcoffset r = utcoffset d"
    "r = d \<or> (\<exists>m\<in>set rest. e m = Inr r)"
    "wall_us r \<le> wall_us d"
    "\<forall>m\<in>set rest. \<forall>d. e m = Inr d \<longrightarrow> wall_us r \<le> wall_us d"
    by blast
  have "min_gen e ms = Inr r" using ms d(1) r(1) by (simp add: min_gen_def)
  moreover have "\<exists>m\<in>set ms. e m = Inr r" using r(3) d(1) ms by auto
  moreover have "\<forall>m'\<in>set ms. \<forall>d'. e m' = Inr d' \<longrightarrow> wall_us r \<le> wall_us d'"
    using r(4) r(5) d(1) ms by auto
  ultimately show ?thesis using r(2) d(2) by blast
qed

lemma py_min_utc:
  assumes "ds \<noteq> []" and "\<forall>d\<in>set ds. utcoffset d = Some 0"
  shows "py_min ds = Inr \<lparr>wall_us = Min (set (map wall_us ds)), utcoffset = Some 0\<rparr>"
proof -
  have "\<forall>m\<in>set ds. \<exists>d. Inr m = (Inr d :: pyexn + datetime) \<and> utcoffset d = Some 0"
    using assms(2) by simp
  from min_gen_same_offset [OF assms(1) this] obtain r where r:
    "min_gen Inr ds = Inr r" "utcoffset r = Some 0" "r \<in> set ds"
    "\<forall>d\<in>set ds. wall_us r \<le> wall_us d"
    by auto
  have "Min (set (map wall_us ds)) = wall_us r"
    using r(3) r(4) by (intro Min_eqI) auto
  then have "r = \<lparr>wall_us = Min (set (map wall_us ds)), utcoffset = Some 0\<rparr>"
    using r(2) by (cases r) simp
  then show ?thesis using r(1) by (simp add: py_min_def)
qed

lemmas float_defs =
  float_of_str_def float_of_bytes_def py_float_def strip_def float_space_def bytes_space_def
  str_space_def parse_signed_def parse_unsigned_def parse_number_def parse_exponent_def
  is_digit_def nat_of_digits_def digit_val_def pow10_def to_lower_def binary64_numeral

lemmas time_defs =
  fromtimestamp_utc_def timedelta_kw_def unit_us_def round_half_even_def trunc_def round64_zero
  datetime_add_def
  datetime_in_range_def timedelta_in_range_def DATETIME_MIN_US_def DATETIME_MAX_US_def
  TIMEDELTA_MIN_US_def TIMEDELTA_MAX_US_def

lemma unit_us_None_iff: "unit_us u = None \<longleftrightarrow> u \<notin> set UNITS"
  by (simp add: unit_us_def UNITS_def)

lemma timedelta_kw_bad_unit: "u \<notin> set UNITS \<Longrightarrow> timedelta_kw u x = Inl TypeError"
  using unit_us_None_iff [of u] by (simp add: timedelta_kw_def)

lemma utcoffset_fromtimestamp: "fromtimestamp_utc t = Inr d \<Longrightarrow> utcoffset d = Some 0"
  by (cases t) (auto simp add: fromtimestamp_utc_def Let_def split: if_splits)

lemma utcoffset_datetime_add: "datetime_add d delta = Inr r \<Longrightarrow> utcoffset r = utcoffset d"
  by (auto simp add: datetime_add_def split: if_splits)

lemma min_from_result:
  "min_from e cur ms = Inr r \<Longrightarrow> r = cur \<or> (\<exists>m\<in>set ms. e m = Inr r)"
proof (induction ms arbitrary: cur)
  case Nil
  then show ?case by simp
next
  case (Cons m ms)
  from Cons.prems obtain d b where d: "e m = Inr d" "datetime_lt d cur = Inr b"
    "min_from e (if b then d else cur) ms = Inr r"
    by (auto split: sum.splits)
  from Cons.IH [OF d(3)] show ?case using d(1) by (auto split: if_splits)
qed

lemma min_gen_result: "min_gen e ms = Inr r \<Longrightarrow> \<exists>m\<in>set ms. e m = Inr r"
proof (cases ms)
  case Nil
  assume "min_gen e ms = Inr r"
  then show ?thesis using Nil by (simp add: min_gen_def)
next
  case (Cons m rest)
  assume "min_gen e ms = Inr r"
  then obtain d where d: "e m = Inr d" "min_from e d rest = Inr r"
    using Cons by (auto simp add: min_gen_def split: sum.splits)
  from min_from_result [OF d(2)] show ?thesis using d(1) Cons by auto
qed

text \<open>\<^verbatim>\<open>float()\<close> of a text raises nothing but ValueError.\<close>

lemma py_float_error: "py_float sp s = Inl e \<Longrightarrow> e = ValueError"
  by (auto simp add: py_float_def split: option.splits)

lemma float_of_str_inf: "float_of_str ''inf'' = Inr PosInf"
  by (simp add: float_defs)

text \<open>Numerals that the examples read.\<close>

lemma float_of_str_30: "float_of_str ''30'' = Inr (Finite 30)"
  by (simp add: float_defs)

lemma float_of_str_999999999: "float_of_str ''999999999'' = Inr (Finite 999999999)"
  by (simp add: float_defs)

lemma float_of_str_9999999999: "float_of_str ''9999999999'' = Inr (Finite 9999999999)"
  by (simp add: float_defs)

lemma float_of_str_10: "float_of_str ''10'' = Inr (Finite 10)"
  by (simp add: float_defs)

lemma float_of_str_20: "float_of_str ''20'' = Inr (Finite 20)"
  by (simp add: float_defs)

lemma float_of_str_1700000000: "float_of_str ''1700000000'' = Inr (Finite 1700000000)"
  by (simp add: float_defs)

lemma float_of_bytes_1700000000: "float_of_bytes ''1700000000'' = Inr (Finite 1700000000)"
  by (simp add: float_defs)

lemma fromtimestamp_1700000000:
  "fromtimestamp_utc (Finite 1700000000) = Inr \<lparr>wall_us = 1700000000000000, utcoffset = Some 0\<rparr>"
  by (simp add: time_defs)

text \<open>
  Numerals that are not floats. The float nearest to 0.0001255 is below it, and so is
  its product with 1000000, the float 125.49999999999999. The float nearest to
  251702300799999999 is 251702300800000000.
\<close>

lemma round64_0_0001255:
  "round64 (251 / 2000000) = 4630132762501097 / 36893488147419103232"
proof -
  have "round_half_even (251 / 2000000 / (1 / 2 ^ 65)) = 4630132762501097"
    by (simp add: round_half_even_def floor_rat_numeral Let_def)
  then show ?thesis
    using round64_lt1 [of 12 "251 / 2000000"]
    by (simp add: pow2_def)
qed

lemma float_of_str_0_0001255:
  "float_of_str ''0.0001255'' = Inr (Finite (4630132762501097 / 36893488147419103232))"
  by (simp add: float_defs binary64_def round64_0_0001255 Let_def)

lemma round64_125_5:
  "round64 (72345824414079640625 / 576460752303423488) = 8831277394296831 / 70368744177664"
proof -
  have "round_half_even (72345824414079640625 / 576460752303423488 / (1 / 2 ^ 46)) = 8831277394296831"
    by (simp add: round_half_even_def floor_rat_numeral Let_def)
  then show ?thesis
    using round64_ge1 [of 6 "72345824414079640625 / 576460752303423488"]
    by (simp add: pow2_def)
qed

lemma round64_251702300799999999:
  "round64 251702300799999999 = 251702300800000000"
proof -
  have "round_half_even (251702300799999999 / 2 ^ 5) = 7865696900000000"
    by (simp add: round_half_even_def floor_rat_numeral Let_def)
  then show ?thesis
    using round64_ge1 [of 57 251702300799999999]
    by (simp add: pow2_def)
qed

lemma float_of_str_251702300799999999:
  "float_of_str ''251702300799999999'' = Inr (Finite 251702300800000000)"
  by (simp add: float_defs binary64_def round64_251702300799999999 Let_def)

section \<open>Properties of the Kodi playback check\<close>

text \<open>What the check does with a reply of the wrong shape at the top level.\<close>

lemma Kodi_check_request_failed: "Kodi_check p (Inl err) = Inl err"
  by (simp add: Kodi_check_def safe_request_result_def)

lemma Kodi_check_not_json: "Kodi_check p (Inr (Response None)) = Inl TemporaryCheckError"
  by (simp add: Kodi_check_def safe_request_result_def)

lemma Kodi_check_no_result:
  "map_of kvs ''result'' = None \<Longrightarrow>
   Kodi_check p (Inr (Response (Some (JDict kvs)))) = Inl TemporaryCheckError"
  by (simp add: Kodi_check_def safe_request_result_def)

lemma Kodi_check_not_dict:
  "(\<And>kvs. j \<noteq> JDict kvs) \<Longrightarrow>
   Kodi_check p (Inr (Response (Some j))) = Inl TemporaryCheckError"
  by (cases j) (auto simp add: Kodi_check_def safe_request_result_def)

text \<open>
  A \<^verbatim>\<open>result\<close> that is not a dict: with \<^verbatim>\<open>suspend_while_paused\<close> the call of
  \<^verbatim>\<open>get\<close> raises AttributeError, which no clause catches; without it the truth value
  of the object decides.
\<close>

lemma Kodi_check_result_list_paused:
  "Kodi_check True (Inr (Response (Some (JDict [(''result'', JList [])])))) =
   Inl (Unhandled AttributeError)"
  by (simp add: Kodi_check_def safe_request_result_def)

lemma Kodi_check_result_number:
  "Kodi_check False (Inr (Response (Some (JDict [(''result'', JInt 5)])))) =
   Inr (Some ''Kodi currently playing'')"
  by (simp add: Kodi_check_def safe_request_result_def)

text \<open>The replies of a working Kodi, in both modes.\<close>

lemma Kodi_check_active_players:
  "Kodi_check False (Inr (Response (Some (JDict [(''result'', JList players)])))) =
   Inr (if players = [] then None else Some ''Kodi currently playing'')"
  by (simp add: Kodi_check_def safe_request_result_def)

lemma Kodi_check_playing:
  "Kodi_check True
     (Inr (Response (Some (JDict [(''result'', JDict [(''Player.Playing'', JBool b)])])))) =
   Inr (if b then Some ''Kodi actively playing media'' else None)"
  by (simp add: Kodi_check_def safe_request_result_def)

text \<open>
  The sibling check \<^verbatim>\<open>KodiIdleTime.check\<close> subscripts the result with the key and so
  turns a missing key into TemporaryCheckError.
\<close>

lemma digits_of_120: "digits_of 120 = ''120''"
  by (simp add: digits_of.simps [of 120] digits_of.simps [of 12] digits_of.simps [of "Suc 0"])

lemma KodiIdleTime_check_missing_key:
  "KodiIdleTime_check 120
     (Inr (Response (Some (JDict [(''id'', JInt 1), (''jsonrpc'', JStr ''2.0''),
                                  (''result'', JDict [])])))) =
   Inl TemporaryCheckError"
  by (simp add: KodiIdleTime_check_def str_of_int_def digits_of_120)

text \<open>
  Claim C1. In both modes of the Kodi playback check, a reply that is not JSON, lacks
  an expected key or has a wrong type raises TemporaryCheckError, and a \<^verbatim>\<open>result\<close>
  object without the expected boolean key is never taken for idle.
  The check does not do this: with \<^verbatim>\<open>suspend_while_paused\<close> set, the reply
  \<^verbatim>\<open>{"id": 1, "jsonrpc": "2.0", "result": {}}\<close>, whose result lacks the key
  \<^verbatim>\<open>Player.Playing\<close>, makes \<^verbatim>\<open>check\<close> return \<^verbatim>\<open>None\<close>, that is idle.
\<close>

theorem Kodi_check_missing_key_is_idle:
  "Kodi_check True
     (Inr (Response (Some (JDict [(''id'', JInt 1), (''jsonrpc'', JStr ''2.0''),
                                  (''result'', JDict [])])))) =
   Inr None"
  by (simp add: Kodi_check_def safe_request_result_def)

section \<open>Properties of the Command wakeup check\<close>

lemma Command_check_failed:
  "rc \<noteq> 0 \<Longrightarrow>
   Command_check not_found (rc, out) timestamp =
   Inl (if not_found rc then SevereCheckError else TemporaryCheckError)"
  by (simp add: Command_check_def check_output_def raise_severe_if_command_not_found_def)

lemma Command_check_timestamp:
  "Command_check not_found (0, ''1700000000'' @ [CHR 0x0A]) timestamp =
   Inr (Some \<lparr>wall_us = 1700000000000000, utcoffset = Some 0\<rparr>)"
  by (simp add: Command_check_def check_output_def splitlines_def index0_def bytes_linebreak_def
      strip_def bytes_space_def float_of_bytes_1700000000 fromtimestamp_1700000000)

lemma Command_check_blank_line:
  "Command_check not_found (0, [CHR 0x0A]) timestamp = Inr None"
  by (simp add: Command_check_def check_output_def splitlines_def index0_def strip_def
      bytes_linebreak_def)

text \<open>The first line of the output of a process that exits with status 0.\<close>

lemma Command_check_blank_first_line:
  "index0 (splitlines bytes_linebreak out) = Inr output \<Longrightarrow> strip bytes_space output = [] \<Longrightarrow>
   Command_check not_found (0, out) timestamp = Inr None"
  by (simp add: Command_check_def check_output_def)

lemma Command_check_unparsable:
  assumes "index0 (splitlines bytes_linebreak out) = Inr output"
    and "strip bytes_space output \<noteq> []"
    and "float_of_bytes (strip bytes_space output) = Inl e"
  shows "Command_check not_found (0, out) timestamp = Inl TemporaryCheckError"
proof -
  have "e = ValueError"
    using assms(3) py_float_error by (simp add: float_of_bytes_def)
  then show ?thesis
    using assms by (simp add: Command_check_def check_output_def)
qed

text \<open>
  Claim C2. When the command of the Command wakeup check exits successfully with empty
  standard output, \<^verbatim>\<open>check\<close> returns nothing without raising; a non-zero exit and an
  unparsable first line raise TemporaryCheckError.
  The check does not do the first: a process that exits with status 0 and writes
  nothing has no first line, \<^verbatim>\<open>splitlines()[0]\<close> raises IndexError, and no clause of
  \<^verbatim>\<open>check\<close> catches it.
\<close>

theorem Command_check_empty_output:
  "Command_check not_found (0, []) timestamp = Inl (Unhandled IndexError)"
  by (simp add: Command_check_def check_output_def splitlines_def index0_def)

section \<open>Properties of the File wakeup check\<close>

lemma File_check_absent: "File_check (Inl FileNotFoundError) timestamp = Inr None"
  by (simp add: File_check_def)

lemma File_check_timestamp:
  "File_check (Inr ''1700000000'') timestamp =
   Inr (Some \<lparr>wall_us = 1700000000000000, utcoffset = Some 0\<rparr>)"
  by (simp add: File_check_def splitlines_def index0_def str_linebreak_def strip_def
      str_space_def float_of_str_1700000000 fromtimestamp_1700000000)

lemma File_check_not_a_number:
  "File_check (Inr ''not-a-number'') timestamp = Inl TemporaryCheckError"
  by (simp add: File_check_def splitlines_def index0_def str_linebreak_def float_defs)

lemma File_check_io_error: "File_check (Inl OSError) timestamp = Inl TemporaryCheckError"
  by (simp add: File_check_def)

text \<open>The first line of a file that is present and has one.\<close>

lemma File_check_unparsable:
  assumes "index0 (splitlines str_linebreak text) = Inr first_line"
    and "float_of_str (strip str_space first_line) = Inl e"
  shows "File_check (Inr text) timestamp = Inl TemporaryCheckError"
proof -
  have "e = ValueError"
    using assms(2) py_float_error by (simp add: float_of_str_def)
  then show ?thesis
    using assms by (simp add: File_check_def)
qed

lemma File_check_instant:
  assumes "index0 (splitlines str_linebreak text) = Inr first_line"
    and "float_of_str (strip str_space first_line) = Inr t"
    and "fromtimestamp_utc t = Inr d"
  shows "File_check (Inr text) timestamp = Inr (Some d)"
  using assms by (simp add: File_check_def)

text \<open>
  A first line that \<^verbatim>\<open>float\<close> reads and that is no instant: infinity makes
  \<^verbatim>\<open>datetime.fromtimestamp\<close> raise OverflowError, which is neither a ValueError nor an
  IOError.
\<close>

lemma File_check_infinity: "File_check (Inr ''inf'') timestamp = Inl (Unhandled OverflowError)"
  by (simp add: File_check_def splitlines_def index0_def str_linebreak_def strip_def
      str_space_def float_of_str_inf fromtimestamp_utc_def)

text \<open>
  Claim C3. The File wakeup check returns nothing for a file that does not exist,
  the instant of the first line for a file that holds a timestamp, and raises
  TemporaryCheckError, and nothing else, for every file that is present and cannot be
  parsed. The check does not do the last: an empty file has no first line,
  \<^verbatim>\<open>splitlines()[0]\<close> raises IndexError, and the clauses of \<^verbatim>\<open>check\<close> catch only
  FileNotFoundError, ValueError and IOError.
\<close>

theorem File_check_empty_file:
  "File_check (Inr []) timestamp = Inl (Unhandled IndexError)"
  by (simp add: File_check_def splitlines_def index0_def)

section \<open>Properties of the login-session check\<close>

lemma sessions_loop_first_not_idle:
  "sessions_loop self sessions =
   (case first_not_idle self sessions of
      None \<Rightarrow> None
    | Some s \<Rightarrow> Some (''Login session '' @ fst s @ '' is not idle''))"
  by (induction self sessions rule: sessions_loop.induct)
     (simp_all add: first_not_idle_def allowed_session_def)

lemma LogindSessionsIdle_check_bus_failure:
  "LogindSessionsIdle_check self (Inl LogindDBusException) = Inl TemporaryCheckError"
  by (simp add: LogindSessionsIdle_check_def list_sessions_def)

lemma LogindSessionsIdle_create_default:
  "LogindSessionsIdle_create Map.empty =
   \<lparr>types = [''tty'', ''x11'', ''wayland''], states = [''active'', ''online'']\<rparr>"
  by (simp add: LogindSessionsIdle_create_def config_get_def split_def strip_def str_space_def)

text \<open>The sessions of the specification's examples, with the default filters.\<close>

lemma LogindSessionsIdle_check_not_idle:
  "LogindSessionsIdle_check (LogindSessionsIdle_create Map.empty)
     (Inr [(''c1'', \<lparr>Type = ''tty'', State = ''active'', IdleHint = False\<rparr>)]) =
   Inr (Some ''Login session c1 is not idle'')"
  by (simp add: LogindSessionsIdle_create_default LogindSessionsIdle_check_def list_sessions_def)

lemma LogindSessionsIdle_check_idle:
  "LogindSessionsIdle_check (LogindSessionsIdle_create Map.empty)
     (Inr [(''c1'', \<lparr>Type = ''tty'', State = ''active'', IdleHint = True\<rparr>)]) = Inr None"
  by (simp add: LogindSessionsIdle_create_default LogindSessionsIdle_check_def list_sessions_def)

lemma LogindSessionsIdle_check_type_excluded:
  "LogindSessionsIdle_check \<lparr>types = [''tty''], states = [''active'', ''online'']\<rparr>
     (Inr [(''c2'', \<lparr>Type = ''x11'', State = ''active'', IdleHint = idle\<rparr>)]) = Inr None"
  by (simp add: LogindSessionsIdle_check_def list_sessions_def)

text \<open>
  Claim C7. The login-session check goes through the sessions in the order in which
  the bus lists them, skips without failing every session whose type or whose state
  is not in the configured set, returns busy with the reason
  \<^verbatim>\<open>Login session {id} is not idle\<close> for the first remaining session whose idle hint is
  false, and returns nothing when all remaining sessions are idle or none remains.
\<close>

theorem LogindSessionsIdle_check_first_not_idle:
  "LogindSessionsIdle_check self (Inr sessions) =
   Inr (case first_not_idle self sessions of
          None \<Rightarrow> None
        | Some s \<Rightarrow> Some (''Login session '' @ fst s @ '' is not idle''))"
  by (simp add: LogindSessionsIdle_check_def list_sessions_def sessions_loop_first_not_idle)

section \<open>Properties of the timer units\<close>

text \<open>One step of the loop, for a timer whose property is converted exactly.\<close>

lemma timers_loop_step:
  assumes "elapse_exact (clock i) (GetAll bus (snd timer))"
  shows "timers_loop bus clock i result (timer # timers) =
         timers_loop bus clock (Suc i)
           (case next_elapse (clock i) (GetAll bus (snd timer)) of
              None \<Rightarrow> result
            | Some d \<Rightarrow> AList.update (fst timer) d result) timers"
proof (cases "NextElapseUSecRealtime (GetAll bus (snd timer)) = 0")
  case False
  then have "uint (NextElapseUSecRealtime (GetAll bus (snd timer))) < EXACT_USEC_LIMIT"
    using assms by (simp add: elapse_exact_def)
  then show ?thesis
    using False by (simp add: fromtimestamp_usec next_elapse_def)
next
  case rt: True
  show ?thesis
  proof (cases "NextElapseUSecMonotonic (GetAll bus (snd timer)) = 0")
    case True
    then show ?thesis using rt by (simp add: next_elapse_def)
  next
    case False
    then have "uint (NextElapseUSecMonotonic (GetAll bus (snd timer))) < EXACT_USEC_LIMIT"
      and "datetime_in_range (clock i + uint (NextElapseUSecMonotonic (GetAll bus (snd timer))))"
      using assms rt by (simp_all add: elapse_exact_def)
    then show ?thesis
      using rt False by (simp add: timedelta_usec next_elapse_def datetime_add_def now_utc_def)
  qed
qed

lemma timers_loop_elapses:
  "(\<And>j. j < length timers \<Longrightarrow> elapse_exact (clock (i + j)) (GetAll bus (snd (timers ! j)))) \<Longrightarrow>
   timers_loop bus clock i result timers = Inr (insert_elapses (elapses bus clock i timers) result)"
proof (induction timers arbitrary: i result)
  case Nil
  then show ?case by (simp add: insert_elapses_def)
next
  case (Cons timer timers)
  have head: "elapse_exact (clock i) (GetAll bus (snd timer))"
    using Cons.prems [of 0] by simp
  have tail: "\<And>j. j < length timers \<Longrightarrow>
      elapse_exact (clock (Suc i + j)) (GetAll bus (snd (timers ! j)))"
    using Cons.prems [of "Suc j" for j] by simp
  show ?case
    unfolding timers_loop_step [of clock i bus timer, OF head]
    by (simp add: Cons.IH [of "Suc i", OF tail] insert_elapses_def split: option.split)
qed

lemma ex_less_Suc_split: "(\<exists>j<Suc n. P j) = (P 0 \<or> (\<exists>j<n. P (Suc j)))"
  by (metis less_Suc_eq_0_disj)

lemma in_set_elapses:
  "(n, d) \<in> set (elapses bus clock i timers) \<longleftrightarrow>
   (\<exists>j<length timers. n = fst (timers ! j) \<and>
      next_elapse (clock (i + j)) (GetAll bus (snd (timers ! j))) = Some d)"
proof (induction timers arbitrary: i)
  case Nil
  then show ?case by simp
next
  case (Cons timer timers)
  show ?case
    by (cases "next_elapse (clock i) (GetAll bus (snd timer))")
       (auto simp add: Cons.IH ex_less_Suc_split)
qed

lemma fst_elapses: "fst ` set (elapses bus clock i timers) \<subseteq> fst ` set timers"
  by (induction timers arbitrary: i) (auto split: option.splits)

lemma distinct_elapses:
  "distinct (map fst timers) \<Longrightarrow> distinct (map fst (elapses bus clock i timers))"
proof (induction timers arbitrary: i)
  case Nil
  then show ?case by simp
next
  case (Cons timer timers)
  then show ?case
    using fst_elapses [of bus clock "Suc i" timers]
    by (auto split: option.splits)
qed

lemma insert_elapses_distinct:
  "distinct (map fst es) \<Longrightarrow> fst ` set es \<inter> fst ` set result = {} \<Longrightarrow>
   insert_elapses es result = result @ es"
proof (induction es arbitrary: result)
  case Nil
  then show ?case by (simp add: insert_elapses_def)
next
  case (Cons e es)
  have new: "fst e \<notin> fst ` set result" using Cons.prems by auto
  then have upd: "AList.update (fst e) (snd e) result = result @ [e]"
    by (induction result) auto
  have "insert_elapses es (result @ [e]) = (result @ [e]) @ es"
    using Cons.prems by (intro Cons.IH) auto
  then show ?case by (simp add: insert_elapses_def upd)
qed

lemma next_timer_executions_elapses:
  assumes "distinct (map fst (timer_units bus))"
    and "\<And>j. j < length (timer_units bus) \<Longrightarrow>
           elapse_exact (clock j) (GetAll bus (snd (timer_units bus ! j)))"
  shows "next_timer_executions bus clock = Inr (elapses bus clock 0 (timer_units bus))"
proof -
  have "timers_loop bus clock 0 [] (timer_units bus) =
        Inr (insert_elapses (elapses bus clock 0 (timer_units bus)) [])"
    using assms(2) by (intro timers_loop_elapses) simp
  then show ?thesis
    using insert_elapses_distinct [OF distinct_elapses [OF assms(1)], of bus clock 0 "[]"]
    by (simp add: next_timer_executions_def)
qed

lemma map_of_elapses:
  assumes "distinct (map fst timers)" and "j < length timers"
  shows "map_of (elapses bus clock i timers) (fst (timers ! j)) =
         next_elapse (clock (i + j)) (GetAll bus (snd (timers ! j)))"
proof -
  let ?E = "elapses bus clock i timers"
  have dist: "distinct (map fst ?E)"
    using assms(1) by (rule distinct_elapses)
  have same: "j' = j" if "j' < length timers" and "fst (timers ! j) = fst (timers ! j')" for j'
    using that assms nth_eq_iff_index_eq [of "map fst timers" j j'] by simp
  have mem: "(fst (timers ! j), d) \<in> set ?E \<longleftrightarrow>
             next_elapse (clock (i + j)) (GetAll bus (snd (timers ! j))) = Some d" for d
    unfolding in_set_elapses using assms(2) same by blast
  show ?thesis
  proof (cases "next_elapse (clock (i + j)) (GetAll bus (snd (timers ! j)))")
    case None
    then have "fst (timers ! j) \<notin> fst ` set ?E"
      using mem by force
    then show ?thesis using None by (simp add: map_of_eq_None_iff)
  next
    case (Some d)
    then have "(fst (timers ! j), d) \<in> set ?E" using mem by simp
    then show ?thesis using Some dist by simp
  qed
qed

lemma timer_units_example:
  "timer_units example_bus =
   [(''backup.timer'', ''/unit/backup''), (''boot.timer'', ''/unit/boot''), (''idle.timer'', ''/unit/idle'')]"
  by (simp add: timer_units_def example_bus_def suffix_to_prefix)

lemma GetAll_example:
  "GetAll example_bus ''/unit/backup'' = \<lparr>NextElapseUSecRealtime = 1700000000000000, NextElapseUSecMonotonic = 5\<rparr>"
  "GetAll example_bus ''/unit/boot'' = \<lparr>NextElapseUSecRealtime = 0, NextElapseUSecMonotonic = 60000000\<rparr>"
  "GetAll example_bus ''/unit/idle'' = \<lparr>NextElapseUSecRealtime = 0, NextElapseUSecMonotonic = 0\<rparr>"
  by (simp_all add: example_bus_def)

lemma timer_units_never_elapsing:
  "timer_units never_elapsing_bus = [(''never.timer'', ''/unit/never'')]"
  by (simp add: timer_units_def never_elapsing_bus_def suffix_to_prefix)

lemma GetAll_never_elapsing:
  "GetAll never_elapsing_bus path =
   \<lparr>NextElapseUSecRealtime = 18446744073709551615, NextElapseUSecMonotonic = 18446744073709551615\<rparr>"
  by (simp add: never_elapsing_bus_def)

text \<open>
  The largest 64-bit number of microseconds as a float of seconds is
  18446744073709.55078125; \<^verbatim>\<open>fromtimestamp\<close> makes 550781 microseconds of the fraction,
  and the year is 586524.
\<close>

lemma round64_usec_infinity:
  "round64 (18446744073709551615 / 1000000) = 4722366482869645 / 256"
proof -
  have "round_half_even (18446744073709551615 / 1000000 / (1 / 2 ^ 8)) = 4722366482869645"
    by (simp add: round_half_even_def floor_rat_numeral Let_def)
  then show ?thesis
    using round64_ge1 [of 44 "18446744073709551615 / 1000000"]
    by (simp add: pow2_def)
qed

lemma round64_550781: "round64 (2203125 / 4) = 2203125 / 4"
proof -
  have "round_half_even (2203125 / 4 / (1 / 2 ^ 33)) = 4731174912000000"
    by (simp add: round_half_even_def floor_rat_numeral Let_def)
  then show ?thesis
    using round64_ge1 [of 19 "2203125 / 4"]
    by (simp add: pow2_def)
qed

lemma usec_to_seconds_infinity:
  "usec_to_seconds 18446744073709551615 = Finite (4722366482869645 / 256)"
proof -
  have "uint (18446744073709551615 :: 64 word) = 18446744073709551615" by simp
  then have "usec_to_seconds 18446744073709551615 = binary64 (18446744073709551615 / 1000000)"
    by (simp only: usec_to_seconds_def of_int_numeral)
  also have "\<dots> = Finite (4722366482869645 / 256)"
    by (simp only: binary64_def round64_usec_infinity Let_def) simp
  finally show ?thesis .
qed

lemma fromtimestamp_usec_infinity:
  "fromtimestamp_utc (usec_to_seconds 18446744073709551615) = Inl ValueError"
proof -
  have tr: "trunc (4722366482869645 / 256) = 18446744073709"
    by (simp add: trunc_def floor_rat_numeral)
  have fr: "(4722366482869645 / 256 - of_int 18446744073709) * 1000000 = (2203125 / 4 :: rat)"
    by simp
  have rh: "round_half_even (2203125 / 4) = 550781"
    by (simp add: round_half_even_def floor_rat_numeral Let_def)
  show ?thesis
    by (simp only: usec_to_seconds_infinity fromtimestamp_utc_def pyfloat.case Let_def tr fr
        round64_550781 rh)
       (simp add: datetime_in_range_def DATETIME_MIN_US_def DATETIME_MAX_US_def)
qed

lemma next_timer_executions_never_elapsing:
  "next_timer_executions never_elapsing_bus clock = Inl ValueError"
  by (simp add: next_timer_executions_def timer_units_never_elapsing GetAll_never_elapsing
      fromtimestamp_usec_infinity)

text \<open>
  One microsecond after \<open>2 ^ 33\<close> seconds: the float of seconds is
  8589934592 + 1 / 524288, and \<^verbatim>\<open>fromtimestamp\<close> makes 2 microseconds of the
  fraction.
\<close>

lemma round64_usec_year_2242:
  "round64 (8589934592000001 / 1000000) = 4503599627370497 / 524288"
proof -
  have "round_half_even (8589934592000001 / 1000000 / (1 / 2 ^ 19)) = 4503599627370497"
    by (simp add: round_half_even_def floor_rat_numeral Let_def)
  then show ?thesis
    using round64_ge1 [of 33 "8589934592000001 / 1000000"]
    by (simp add: pow2_def)
qed

lemma round64_15625_8192: "round64 (15625 / 8192) = 15625 / 8192"
proof -
  have "round_half_even (15625 / 8192 / (1 / 2 ^ 52)) = 8589934592000000"
    by (simp add: round_half_even_def floor_rat_numeral Let_def)
  then show ?thesis
    using round64_ge1 [of 0 "15625 / 8192"]
    by (simp add: pow2_def)
qed

lemma usec_to_seconds_year_2242:
  "usec_to_seconds 8589934592000001 = Finite (4503599627370497 / 524288)"
proof -
  have "uint (8589934592000001 :: 64 word) = 8589934592000001" by simp
  then have "usec_to_seconds 8589934592000001 = binary64 (8589934592000001 / 1000000)"
    by (simp only: usec_to_seconds_def of_int_numeral)
  also have "\<dots> = Finite (4503599627370497 / 524288)"
    by (simp only: binary64_def round64_usec_year_2242 Let_def) simp
  finally show ?thesis .
qed

lemma fromtimestamp_usec_year_2242:
  "fromtimestamp_utc (usec_to_seconds 8589934592000001) =
   Inr \<lparr>wall_us = 8589934592000002, utcoffset = Some 0\<rparr>"
proof -
  have tr: "trunc (4503599627370497 / 524288) = 8589934592"
    by (simp add: trunc_def floor_rat_numeral)
  have fr: "(4503599627370497 / 524288 - of_int 8589934592) * 1000000 = (15625 / 8192 :: rat)"
    by simp
  have rh: "round_half_even (15625 / 8192) = 2"
    by (simp add: round_half_even_def floor_rat_numeral Let_def)
  show ?thesis
    by (simp only: usec_to_seconds_year_2242 fromtimestamp_utc_def pyfloat.case Let_def tr fr
        round64_15625_8192 rh)
       (simp add: datetime_in_range_def DATETIME_MIN_US_def DATETIME_MAX_US_def)
qed

lemma timer_units_year_2242:
  "timer_units year_2242_bus = [(''late.timer'', ''/unit/late'')]"
  by (simp add: timer_units_def year_2242_bus_def suffix_to_prefix)

lemma GetAll_year_2242:
  "GetAll year_2242_bus path =
   \<lparr>NextElapseUSecRealtime = 8589934592000001, NextElapseUSecMonotonic = 0\<rparr>"
  by (simp add: year_2242_bus_def)

lemma next_timer_executions_year_2242:
  "next_timer_executions year_2242_bus clock =
   Inr [(''late.timer'', \<lparr>wall_us = 8589934592000002, utcoffset = Some 0\<rparr>)]"
  by (simp add: next_timer_executions_def timer_units_year_2242 GetAll_year_2242
      fromtimestamp_usec_year_2242)

text \<open>
  A timer whose realtime property is the largest 64-bit number: the instant would lie
  in the year 586524, \<^verbatim>\<open>datetime.fromtimestamp\<close> raises ValueError, and the function
  returns no mapping. A timer whose realtime property is 8589934592000001: its instant
  in the mapping is 8589934592000002 microseconds since the epoch, one microsecond
  after the value of the property.
\<close>

theorem next_timer_executions_unrepresentable:
  "next_timer_executions never_elapsing_bus epoch_clock = Inl ValueError \<and>
   next_timer_executions year_2242_bus epoch_clock =
     Inr [(''late.timer'', \<lparr>wall_us = 8589934592000002, utcoffset = Some 0\<rparr>)]"
  by (simp add: next_timer_executions_never_elapsing next_timer_executions_year_2242)

text \<open>
  Claim C4, amended. Suppose that the names of the timer units on the bus are
  distinct and that, for every one of the timer units, the property that is converted,
  the realtime property if it is not zero and else the monotonic property, is less than
  8589934592000000 microseconds (\<open>2 ^ 33\<close> seconds), and the current time plus a
  monotonic property that is converted is not after the year 9999. Then a mapping of
  names to instants is returned, and for every timer unit: if the realtime property is
  not zero, the instant of the unit is that value as microseconds since the epoch in
  UTC, whatever the monotonic property is; otherwise, if the monotonic property is not
  zero, the instant is the current time in UTC plus that many microseconds; if both
  are zero, the unit has no entry in the mapping. A name that is not the name of a
  timer unit has no entry.
\<close>

theorem next_timer_executions_rule:
  assumes "distinct (map fst (timer_units bus))"
    and "\<forall>j<length (timer_units bus).
           elapse_exact (clock j) (GetAll bus (snd (timer_units bus ! j)))"
  shows "\<exists>result. next_timer_executions bus clock = Inr result \<and>
           (\<forall>j<length (timer_units bus).
              map_of result (fst (timer_units bus ! j)) =
              next_elapse (clock j) (GetAll bus (snd (timer_units bus ! j)))) \<and>
           (\<forall>name. name \<notin> fst ` set (timer_units bus) \<longrightarrow> map_of result name = None)"
proof -
  let ?E = "elapses bus clock 0 (timer_units bus)"
  have run: "next_timer_executions bus clock = Inr ?E"
    using assms by (intro next_timer_executions_elapses) simp_all
  have each: "\<forall>j<length (timer_units bus).
      map_of ?E (fst (timer_units bus ! j)) =
      next_elapse (clock j) (GetAll bus (snd (timer_units bus ! j)))"
    using map_of_elapses [OF assms(1), of _ bus clock 0] by simp
  have none: "\<forall>name. name \<notin> fst ` set (timer_units bus) \<longrightarrow> map_of ?E name = None"
    using fst_elapses [of bus clock 0 "timer_units bus"] by (auto simp add: map_of_eq_None_iff)
  show ?thesis using run each none by blast
qed

theorem next_timer_executions_rule_witness:
  "\<exists>result. next_timer_executions example_bus (\<lambda>i. 1600000000000000) = Inr result \<and>
     map_of result ''backup.timer'' = Some \<lparr>wall_us = 1700000000000000, utcoffset = Some 0\<rparr> \<and>
     map_of result ''boot.timer'' = Some \<lparr>wall_us = 1600000060000000, utcoffset = Some 0\<rparr> \<and>
     map_of result ''idle.timer'' = None \<and>
     map_of result ''ssh.service'' = None"
proof -
  have d: "distinct (map fst (timer_units example_bus))"
    by (simp add: timer_units_example)
  have r: "\<forall>j<length (timer_units example_bus).
             elapse_exact ((\<lambda>i. 1600000000000000) j)
               (GetAll example_bus (snd (timer_units example_bus ! j)))"
    by (simp add: timer_units_example All_less_Suc GetAll_example elapse_exact_def
        EXACT_USEC_LIMIT_def datetime_in_range_def DATETIME_MIN_US_def DATETIME_MAX_US_def)
  have "\<exists>result. next_timer_executions example_bus (\<lambda>i. 1600000000000000) = Inr result \<and>
     map_of result ''idle.timer'' = None \<and>
     map_of result ''boot.timer'' = Some \<lparr>wall_us = 1600000060000000, utcoffset = Some 0\<rparr> \<and>
     map_of result ''backup.timer'' = Some \<lparr>wall_us = 1700000000000000, utcoffset = Some 0\<rparr> \<and>
     (\<forall>name. name \<noteq> ''backup.timer'' \<and> name \<noteq> ''boot.timer'' \<and> name \<noteq> ''idle.timer'' \<longrightarrow>
        map_of result name = None)"
    using next_timer_executions_rule [OF d r]
    by (simp add: timer_units_example All_less_Suc GetAll_example next_elapse_def)
  then obtain result where res:
    "next_timer_executions example_bus (\<lambda>i. 1600000000000000) = Inr result"
    "map_of result ''idle.timer'' = None"
    "map_of result ''boot.timer'' = Some \<lparr>wall_us = 1600000060000000, utcoffset = Some 0\<rparr>"
    "map_of result ''backup.timer'' = Some \<lparr>wall_us = 1700000000000000, utcoffset = Some 0\<rparr>"
    and others: "\<forall>name. name \<noteq> ''backup.timer'' \<and> name \<noteq> ''boot.timer'' \<and> name \<noteq> ''idle.timer'' \<longrightarrow>
        map_of result name = None"
    by blast
  have "map_of result ''ssh.service'' = None"
    using others [rule_format, of "''ssh.service''"] by simp
  with res show ?thesis by blast
qed

section \<open>Properties of the SystemdTimer wakeup check\<close>

lemma utcoffset_next_elapse: "next_elapse now props = Some d \<Longrightarrow> utcoffset d = Some 0"
  by (auto simp add: next_elapse_def split: if_splits)

lemma in_set_map_filter:
  "y \<in> set (List.map_filter f xs) \<longleftrightarrow> (\<exists>x\<in>set xs. f x = Some y)"
  by (induction xs) (auto split: option.splits)

lemma set_matching_elapses:
  "set (map snd (filter (\<lambda>item. match (fst item)) (elapses bus clock 0 (timer_units bus)))) =
   set (matching_elapses match bus clock)"
proof -
  have "d \<in> set (map snd (filter (\<lambda>item. match (fst item)) (elapses bus clock 0 (timer_units bus))))
        \<longleftrightarrow> d \<in> set (matching_elapses match bus clock)" for d
  proof -
    have "d \<in> set (map snd (filter (\<lambda>item. match (fst item)) (elapses bus clock 0 (timer_units bus))))
          \<longleftrightarrow> (\<exists>n. match n \<and> (n, d) \<in> set (elapses bus clock 0 (timer_units bus)))"
      by force
    also have "\<dots> \<longleftrightarrow> (\<exists>j<length (timer_units bus). match (fst (timer_units bus ! j)) \<and>
        next_elapse (clock j) (GetAll bus (snd (timer_units bus ! j))) = Some d)"
      unfolding in_set_elapses by auto
    also have "\<dots> \<longleftrightarrow> d \<in> set (matching_elapses match bus clock)"
      by (auto simp add: matching_elapses_def in_set_map_filter split: if_splits)
    finally show ?thesis .
  qed
  then show ?thesis by blast
qed

lemma timer_units_two_timers:
  "timer_units two_timers_bus = [(''cron.timer'', ''/unit/cron''), (''backup.timer'', ''/unit/backup'')]"
  by (simp add: timer_units_def two_timers_bus_def suffix_to_prefix)

lemma GetAll_two_timers:
  "GetAll two_timers_bus ''/unit/backup'' = \<lparr>NextElapseUSecRealtime = 1700000000000000, NextElapseUSecMonotonic = 0\<rparr>"
  "GetAll two_timers_bus ''/unit/cron'' = \<lparr>NextElapseUSecRealtime = 1800000000000000, NextElapseUSecMonotonic = 0\<rparr>"
  by (simp_all add: two_timers_bus_def)

text \<open>
  The pattern matches no unit name, and the check does not return nothing: the timer
  that never elapses makes \<^verbatim>\<open>next_timer_executions\<close> raise ValueError, outside
  the \<^verbatim>\<open>try\<close> of the check.
\<close>

theorem SystemdTimer_check_unrepresentable:
  "timer_units never_elapsing_bus = [(''never.timer'', ''/unit/never'')] \<and>
   \<not> prefix ''backup'' ''never.timer'' \<and>
   SystemdTimer_check (prefix ''backup'') never_elapsing_bus epoch_clock
     \<lparr>wall_us = 1700000000000000, utcoffset = Some 0\<rparr> = Inl (Unhandled ValueError)"
  by (simp add: timer_units_never_elapsing SystemdTimer_check_def next_timer_executions_never_elapsing)

text \<open>
  Claim C5, amended. Suppose that the names of the timer units on the bus are
  distinct and that, for every timer unit on the bus, whether the pattern matches its
  name or not, the property that is converted, the realtime property if it is not zero
  and else the monotonic property, is less than 8589934592000000 microseconds
  (\<open>2 ^ 33\<close> seconds), and the current time plus a monotonic property that is
  converted is not after the year 9999. Then the check of the timer scan returns the
  earliest instant among exactly the timer units whose name the pattern matches at its
  start, and nothing when no name matches or no matching unit has an instant; with two
  matching units of instants X before Y it returns X.
\<close>

theorem SystemdTimer_check_earliest:
  assumes "distinct (map fst (timer_units bus))"
    and "\<forall>j<length (timer_units bus).
           elapse_exact (clock j) (GetAll bus (snd (timer_units bus ! j)))"
  shows "SystemdTimer_check match bus clock timestamp =
         Inr (earliest_utc (matching_elapses match bus clock))"
proof -
  let ?E = "elapses bus clock 0 (timer_units bus)"
  let ?M = "map snd (filter (\<lambda>item. match (fst item)) ?E)"
  have run: "next_timer_executions bus clock = Inr ?E"
    using assms by (intro next_timer_executions_elapses) simp_all
  have sets: "set ?M = set (matching_elapses match bus clock)"
    by (rule set_matching_elapses)
  have utc: "\<forall>d\<in>set ?M. utcoffset d = Some 0"
    using in_set_elapses [of _ _ bus clock 0 "timer_units bus"] utcoffset_next_elapse
    by fastforce
  show ?thesis
  proof (cases "?M = []")
    case True
    then have "matching_elapses match bus clock = []"
      using sets by (metis set_empty)
    then show ?thesis
      using run True by (simp add: SystemdTimer_check_def py_min_def min_gen_def earliest_utc_def)
  next
    case False
    then have ne: "matching_elapses match bus clock \<noteq> []"
      using sets by (metis set_empty)
    have "set (map wall_us ?M) = set (map wall_us (matching_elapses match bus clock))"
      using sets by (metis set_map)
    then show ?thesis
      using run ne py_min_utc [OF False utc]
      by (simp add: SystemdTimer_check_def earliest_utc_def Let_def)
  qed
qed

theorem SystemdTimer_check_earliest_witness:
  "SystemdTimer_check (\<lambda>name. True) two_timers_bus (\<lambda>i. 0) \<lparr>wall_us = 0, utcoffset = Some 0\<rparr> =
     Inr (Some \<lparr>wall_us = 1700000000000000, utcoffset = Some 0\<rparr>) \<and>
   SystemdTimer_check (prefix ''cron'') two_timers_bus (\<lambda>i. 0) \<lparr>wall_us = 0, utcoffset = Some 0\<rparr> =
     Inr (Some \<lparr>wall_us = 1800000000000000, utcoffset = Some 0\<rparr>) \<and>
   SystemdTimer_check (prefix ''nomatch'') two_timers_bus (\<lambda>i. 0) \<lparr>wall_us = 0, utcoffset = Some 0\<rparr> =
     Inr None"
proof -
  have d: "distinct (map fst (timer_units two_timers_bus))"
    by (simp add: timer_units_two_timers)
  have r: "\<forall>j<length (timer_units two_timers_bus).
             elapse_exact ((\<lambda>i. 0) j)
               (GetAll two_timers_bus (snd (timer_units two_timers_bus ! j)))"
    by (simp add: timer_units_two_timers All_less_Suc GetAll_two_timers elapse_exact_def
        EXACT_USEC_LIMIT_def)
  show ?thesis
    using SystemdTimer_check_earliest [OF d r, of "\<lambda>name. True"]
      SystemdTimer_check_earliest [OF d r, of "prefix ''cron''"]
      SystemdTimer_check_earliest [OF d r, of "prefix ''nomatch''"]
    by (simp add: matching_elapses_def earliest_utc_def timer_units_two_timers
        GetAll_two_timers next_elapse_def)
qed

section \<open>Properties of the Periodic wakeup check\<close>

lemma Periodic_create_bad_unit:
  assumes "cfg ''unit'' = Some u" and "u \<notin> set UNITS"
  shows "Periodic_create cfg = Inl ConfigurationError"
proof (cases "cfg ''value''")
  case None
  then show ?thesis using assms(1) by (simp add: Periodic_create_def config_item_def)
next
  case (Some v)
  show ?thesis
  proof (cases "float_of_str v")
    case (Inl e)
    then have "e = ValueError"
      by (auto simp add: float_of_str_def py_float_def split: option.splits)
    then show ?thesis
      using assms(1) Some Inl by (simp add: Periodic_create_def config_item_def)
  next
    case (Inr x)
    then show ?thesis
      using assms Some by (simp add: Periodic_create_def config_item_def timedelta_kw_bad_unit)
  qed
qed

lemma Periodic_create_no_unit: "cfg ''unit'' = None \<Longrightarrow> Periodic_create cfg = Inl ConfigurationError"
  by (simp add: Periodic_create_def config_item_def)

lemma Periodic_create_30_minutes:
  "Periodic_create [''unit'' \<mapsto> ''minutes'', ''value'' \<mapsto> ''30''] = Inr 1800000000"
  by (simp add: Periodic_create_def config_item_def float_of_str_30 time_defs)

lemma Periodic_check_sum:
  "datetime_in_range (wall_us timestamp + delta) \<Longrightarrow>
   Periodic_check delta timestamp = Inr (Some (timestamp\<lparr>wall_us := wall_us timestamp + delta\<rparr>))"
  by (simp add: Periodic_check_def datetime_add_def)

text \<open>
  A check that \<^verbatim>\<open>create\<close> builds and whose \<^verbatim>\<open>check\<close> fails: the delta of
  999999999 days, the largest \<^verbatim>\<open>timedelta\<close>, added to an instant of the year 2023
  leaves the years that a \<^verbatim>\<open>datetime\<close> has, and the addition raises OverflowError.
\<close>

theorem Periodic_check_overflow:
  "Periodic_create largest_delta_config = Inr 86399999913600000000 \<and>
   Periodic_check 86399999913600000000 \<lparr>wall_us = 1700000000000000, utcoffset = Some 0\<rparr> =
     Inl (Unhandled OverflowError)"
  by (simp add: largest_delta_config_def Periodic_create_def config_item_def
      float_of_str_999999999 Periodic_check_def time_defs)

text \<open>
  Claim C8, amended. Once the Periodic check is constructed, \<^verbatim>\<open>check\<close> returns
  exactly the reference time plus the configured delta whenever that sum is a
  datetime, that is, lies in the years 1 to 9999; for the value 30 and the unit
  minutes the delta is 30 minutes; a unit that is not supported makes \<^verbatim>\<open>create\<close>
  fail with ConfigurationError, so that no check is built with it.
\<close>

theorem Periodic_check_representable:
  "(datetime_in_range (wall_us timestamp + delta) \<longrightarrow>
      Periodic_check delta timestamp = Inr (Some (timestamp\<lparr>wall_us := wall_us timestamp + delta\<rparr>))) \<and>
   Periodic_create [''unit'' \<mapsto> ''minutes'', ''value'' \<mapsto> ''30''] = Inr (30 * 60000000) \<and>
   (cfg ''unit'' = Some unit \<and> unit \<notin> set UNITS \<longrightarrow> Periodic_create cfg = Inl ConfigurationError)"
  using Periodic_check_sum [of timestamp delta] Periodic_create_30_minutes
    Periodic_create_bad_unit [of cfg unit]
  by simp

theorem Periodic_check_representable_witness:
  "datetime_in_range (wall_us \<lparr>wall_us = 1700000000000000, utcoffset = Some 0\<rparr> + 1800000000) \<and>
   Periodic_check 1800000000 \<lparr>wall_us = 1700000000000000, utcoffset = Some 0\<rparr> =
     Inr (Some \<lparr>wall_us = 1700001800000000, utcoffset = Some 0\<rparr>) \<and>
   [''unit'' \<mapsto> ''fortnights'', ''value'' \<mapsto> ''2''] ''unit'' = Some ''fortnights'' \<and>
   ''fortnights'' \<notin> set UNITS \<and>
   Periodic_create [''unit'' \<mapsto> ''fortnights'', ''value'' \<mapsto> ''2''] = Inl ConfigurationError"
proof -
  have r: "datetime_in_range (wall_us \<lparr>wall_us = 1700000000000000, utcoffset = Some 0\<rparr> + 1800000000)"
    by (simp add: datetime_in_range_def DATETIME_MIN_US_def DATETIME_MAX_US_def)
  have u: "[''unit'' \<mapsto> ''fortnights'', ''value'' \<mapsto> ''2''] ''unit'' = Some ''fortnights''
           \<and> ''fortnights'' \<notin> set UNITS"
    by (simp add: UNITS_def)
  show ?thesis
    using r u
      Periodic_check_representable [of "\<lparr>wall_us = 1700000000000000, utcoffset = Some 0\<rparr>"
        1800000000 "[''unit'' \<mapsto> ''fortnights'', ''value'' \<mapsto> ''2'']" "''fortnights''"]
    by simp
qed

section \<open>Properties of the XPath and XPathDelta wakeup checks\<close>

lemma XPath_check_timestamp:
  "XPath_check XPath (Inr [XStr ''1700000000'']) timestamp =
   Inr (Some \<lparr>wall_us = 1700000000000000, utcoffset = Some 0\<rparr>)"
  by (simp add: XPath_check_def min_gen_def float_of_str_1700000000 fromtimestamp_1700000000)

lemma convert_result_delta:
  "convert_result (XPathDelta unit) result timestamp =
   (case offset_of_result unit result of
      Inl e \<Rightarrow> Inl e
    | Inr delta \<Rightarrow> datetime_add timestamp delta)"
  by (simp add: offset_of_result_def split: sum.splits)

lemma convert_result_delta_sum:
  "offset_of_result unit m = Inr delta \<Longrightarrow> datetime_in_range (wall_us timestamp + delta) \<Longrightarrow>
   convert_result (XPathDelta unit) m timestamp = Inr (timestamp\<lparr>wall_us := wall_us timestamp + delta\<rparr>)"
  by (simp only: convert_result_delta) (simp add: datetime_add_def)

lemma XPathDelta_check_min:
  assumes "matches \<noteq> []"
    and "\<forall>m\<in>set matches. \<exists>delta. offset_of_result unit m = Inr delta \<and>
           datetime_in_range (wall_us timestamp + delta)"
  shows "\<exists>delta. XPath_check (XPathDelta unit) (Inr matches) timestamp =
             Inr (Some (timestamp\<lparr>wall_us := wall_us timestamp + delta\<rparr>)) \<and>
           (\<exists>m\<in>set matches. offset_of_result unit m = Inr delta) \<and>
           (\<forall>m\<in>set matches. \<forall>delta'. offset_of_result unit m = Inr delta' \<longrightarrow> delta \<le> delta')"
proof -
  let ?e = "\<lambda>m. convert_result (XPathDelta unit) m timestamp"
  have conv: "\<forall>m\<in>set matches. \<exists>d. ?e m = Inr d \<and> utcoffset d = utcoffset timestamp"
    using assms(2) convert_result_delta_sum [of unit _ _ timestamp] by fastforce
  from min_gen_same_offset [OF assms(1) conv] obtain r where r:
    "min_gen ?e matches = Inr r"
    "\<exists>m\<in>set matches. ?e m = Inr r"
    "\<forall>m\<in>set matches. \<forall>d. ?e m = Inr d \<longrightarrow> wall_us r \<le> wall_us d"
    by blast
  from r(2) obtain m where m: "m \<in> set matches" "?e m = Inr r" by blast
  from assms(2) m(1) obtain delta where delta:
    "offset_of_result unit m = Inr delta" "datetime_in_range (wall_us timestamp + delta)"
    by blast
  have r_eq: "r = timestamp\<lparr>wall_us := wall_us timestamp + delta\<rparr>"
    using convert_result_delta_sum [OF delta] m(2) by simp
  have least: "delta \<le> delta'" if "m' \<in> set matches" "offset_of_result unit m' = Inr delta'"
    for m' delta'
  proof -
    from assms(2) that have "datetime_in_range (wall_us timestamp + delta')" by fastforce
    then have "?e m' = Inr (timestamp\<lparr>wall_us := wall_us timestamp + delta'\<rparr>)"
      using that(2) by (rule convert_result_delta_sum [rotated])
    then have "wall_us r \<le> wall_us (timestamp\<lparr>wall_us := wall_us timestamp + delta'\<rparr>)"
      using r(3) that(1) by blast
    then show ?thesis using r_eq by simp
  qed
  have "XPath_check (XPathDelta unit) (Inr matches) timestamp =
        Inr (Some (timestamp\<lparr>wall_us := wall_us timestamp + delta\<rparr>))"
    using assms(1) r(1) r_eq by (simp add: XPath_check_def)
  then show ?thesis using m(1) delta(1) least by blast
qed

lemma XPath_check_no_match: "XPath_check self (Inr []) timestamp = Inr None"
  by (simp add: XPath_check_def)

lemma XPathDelta_create_bad_unit:
  "config_get cfg ''unit'' ''minutes'' \<notin> set UNITS \<Longrightarrow>
   XPathDelta_create (Inr args) cfg = Inl ConfigurationError"
  by (simp add: XPathDelta_create_def)

lemma XPathDelta_create_default_unit:
  "cfg ''unit'' = None \<Longrightarrow> XPathDelta_create (Inr args) cfg = Inr (XPathDelta ''minutes'')"
  by (simp add: XPathDelta_create_def config_get_def UNITS_def)

lemma XPathDelta_create_unit:
  "cfg ''unit'' = Some unit \<Longrightarrow> unit \<in> set UNITS \<Longrightarrow>
   XPathDelta_create (Inr args) cfg = Inr (XPathDelta unit)"
  by (simp add: XPathDelta_create_def config_get_def)

lemma offset_of_result_minutes:
  "offset_of_result ''minutes'' (XStr ''10'') = Inr 600000000"
  "offset_of_result ''minutes'' (XStr ''20'') = Inr 1200000000"
  by (simp_all add: offset_of_result_def float_of_str_10 float_of_str_20 time_defs)

text \<open>
  The offsets of matches that are not floats: 0.0001255 seconds are 125 microseconds,
  and 251702300799999999 microseconds after an instant of the year 2023 are one
  microsecond after the last datetime, where 251702300799999999 microseconds
  themselves would be the last datetime.
\<close>

lemma offset_of_result_0_0001255:
  "offset_of_result ''seconds'' (XStr ''0.0001255'') = Inr 125"
  by (simp add: offset_of_result_def float_of_str_0_0001255 timedelta_kw_def unit_us_def trunc_def
      floor_rat_numeral round64_125_5 round_half_even_def timedelta_in_range_def
      TIMEDELTA_MIN_US_def TIMEDELTA_MAX_US_def Let_def)

lemma XPathDelta_check_rounded_up:
  "XPath_check (XPathDelta ''microseconds'') (Inr [XStr ''251702300799999999''])
     \<lparr>wall_us = 1700000000000000, utcoffset = Some 0\<rparr> = Inl (Unhandled OverflowError)"
  by (simp add: XPath_check_def min_gen_def float_of_str_251702300799999999 time_defs)

text \<open>
  A match that is a number and gives no instant: 9999999999 minutes after an instant
  of the year 2023 is after the year 9999, the addition raises OverflowError, and the
  clauses of \<^verbatim>\<open>check\<close> catch only TypeError and ValueError.
\<close>

theorem XPathDelta_check_unrepresentable:
  "XPath_check (XPathDelta ''minutes'') (Inr [XStr ''9999999999''])
     \<lparr>wall_us = 1700000000000000, utcoffset = Some 0\<rparr> = Inl (Unhandled OverflowError)"
  by (simp add: XPath_check_def min_gen_def float_of_str_9999999999 time_defs)

text \<open>
  Claim C6, amended. For a sequence of matches that is not empty, in which every match
  is a string that \<^verbatim>\<open>float\<close> reads, with an offset that is a \<^verbatim>\<open>timedelta\<close> and
  that added to the reference time gives a datetime, the relative check reads each
  match as a number, an offset in the configured unit rounded as \<^verbatim>\<open>float\<close> and
  \<^verbatim>\<open>timedelta\<close> round it, adds it to the reference time and returns the earliest
  of the resulting instants; for the matches 10 and 20, the unit minutes and the reference
  time T it returns T plus 10 minutes. No match gives nothing. The unit is minutes
  when none is configured, and a unit that is not supported makes \<^verbatim>\<open>create\<close> fail
  with ConfigurationError.
\<close>

theorem XPathDelta_check_minimum:
  "(matches \<noteq> [] \<and>
    (\<forall>m\<in>set matches. \<exists>delta. offset_of_result unit m = Inr delta \<and>
        datetime_in_range (wall_us timestamp + delta)) \<longrightarrow>
    (\<exists>delta. XPath_check (XPathDelta unit) (Inr matches) timestamp =
         Inr (Some (timestamp\<lparr>wall_us := wall_us timestamp + delta\<rparr>)) \<and>
       (\<exists>m\<in>set matches. offset_of_result unit m = Inr delta) \<and>
       (\<forall>m\<in>set matches. \<forall>delta'. offset_of_result unit m = Inr delta' \<longrightarrow> delta \<le> delta'))) \<and>
   XPath_check (XPathDelta unit) (Inr []) timestamp = Inr None \<and>
   (cfg ''unit'' = None \<longrightarrow> XPathDelta_create (Inr args) cfg = Inr (XPathDelta ''minutes'')) \<and>
   (cfg ''unit'' = Some unit \<and> unit \<in> set UNITS \<longrightarrow>
      XPathDelta_create (Inr args) cfg = Inr (XPathDelta unit)) \<and>
   (cfg ''unit'' = Some unit \<and> unit \<notin> set UNITS \<longrightarrow>
      XPathDelta_create (Inr args) cfg = Inl ConfigurationError)"
  using XPathDelta_check_min [of matches unit timestamp] XPath_check_no_match
    XPathDelta_create_default_unit [of cfg args] XPathDelta_create_unit [of cfg unit args]
    XPathDelta_create_bad_unit [of cfg args]
  by (simp add: config_get_def)

theorem XPathDelta_check_minimum_witness:
  "XPath_check (XPathDelta ''minutes'') (Inr [XStr ''10'', XStr ''20''])
     \<lparr>wall_us = 1700000000000000, utcoffset = Some 0\<rparr> =
     Inr (Some \<lparr>wall_us = 1700000600000000, utcoffset = Some 0\<rparr>) \<and>
   XPathDelta_create (Inr ()) Map.empty = Inr (XPathDelta ''minutes'') \<and>
   XPathDelta_create (Inr ()) [''unit'' \<mapsto> ''hours''] = Inr (XPathDelta ''hours'') \<and>
   XPathDelta_create (Inr ()) [''unit'' \<mapsto> ''fortnights''] = Inl ConfigurationError"
proof -
  let ?T = "\<lparr>wall_us = 1700000000000000, utcoffset = Some (0::int)\<rparr>"
  have hyp: "[XStr ''10'', XStr ''20''] \<noteq> [] \<and>
    (\<forall>m\<in>set [XStr ''10'', XStr ''20'']. \<exists>delta. offset_of_result ''minutes'' m = Inr delta \<and>
        datetime_in_range (wall_us ?T + delta))"
    by (simp add: offset_of_result_minutes datetime_in_range_def DATETIME_MIN_US_def DATETIME_MAX_US_def)
  from XPathDelta_check_minimum [of "[XStr ''10'', XStr ''20'']" "''minutes''" ?T Map.empty "()"] hyp
  obtain delta where delta:
    "XPath_check (XPathDelta ''minutes'') (Inr [XStr ''10'', XStr ''20'']) ?T =
       Inr (Some (?T\<lparr>wall_us := wall_us ?T + delta\<rparr>))"
    "\<exists>m\<in>set [XStr ''10'', XStr ''20'']. offset_of_result ''minutes'' m = Inr delta"
    "\<forall>m\<in>set [XStr ''10'', XStr ''20'']. \<forall>delta'. offset_of_result ''minutes'' m = Inr delta' \<longrightarrow> delta \<le> delta'"
    and default: "XPathDelta_create (Inr ()) Map.empty = Inr (XPathDelta ''minutes'')"
    by blast
  from delta(2) delta(3) have "delta = 600000000"
    by (auto simp add: offset_of_result_minutes)
  with delta(1) have first: "XPath_check (XPathDelta ''minutes'') (Inr [XStr ''10'', XStr ''20'']) ?T =
       Inr (Some \<lparr>wall_us = 1700000600000000, utcoffset = Some 0\<rparr>)"
    by simp
  have hours: "XPathDelta_create (Inr ()) [''unit'' \<mapsto> ''hours''] = Inr (XPathDelta ''hours'')"
    using XPathDelta_check_minimum [of "[]" "''hours''" ?T "[''unit'' \<mapsto> ''hours'']" "()"]
    by (simp add: UNITS_def)
  have bad: "XPathDelta_create (Inr ()) [''unit'' \<mapsto> ''fortnights''] = Inl ConfigurationError"
    using XPathDelta_check_minimum [of "[]" "''fortnights''" ?T "[''unit'' \<mapsto> ''fortnights'']" "()"]
    by (simp add: UNITS_def)
  show ?thesis using first default hours bad by simp
qed

section \<open>Timezone of the returned instants\<close>

lemma utcoffset_File_check: "File_check read_text timestamp = Inr (Some d) \<Longrightarrow> utcoffset d = Some 0"
  by (auto simp add: File_check_def utcoffset_fromtimestamp split: sum.splits if_splits)

lemma utcoffset_Command_check:
  "Command_check not_found proc timestamp = Inr (Some d) \<Longrightarrow> utcoffset d = Some 0"
proof -
  assume a: "Command_check not_found proc timestamp = Inr (Some d)"
  then obtain t where "fromtimestamp_utc t = Inr d"
    by (auto simp add: Command_check_def split: sum.splits if_splits pyexn.splits option.splits)
  then show ?thesis by (rule utcoffset_fromtimestamp)
qed

lemma set_update_subset: "set (AList.update k v al) \<subseteq> insert (k, v) (set al)"
  by (induction al) auto

lemma utcoffset_timers_loop:
  "timers_loop bus clock i result timers = Inr executions \<Longrightarrow>
   \<forall>item\<in>set result. utcoffset (snd item) = Some 0 \<Longrightarrow>
   \<forall>item\<in>set executions. utcoffset (snd item) = Some 0"
proof (induction timers arbitrary: i result)
  case Nil
  then show ?case by simp
next
  case (Cons timer timers)
  let ?props = "GetAll bus (snd timer)"
  show ?case
  proof (cases "NextElapseUSecRealtime ?props \<noteq> 0")
    case True
    with Cons.prems(1) obtain next_time where n:
      "fromtimestamp_utc (usec_to_seconds (NextElapseUSecRealtime ?props)) = Inr next_time"
      "timers_loop bus clock (Suc i) (AList.update (fst timer) next_time result) timers = Inr executions"
      by (auto split: sum.splits)
    have "\<forall>item\<in>set (AList.update (fst timer) next_time result). utcoffset (snd item) = Some 0"
      using set_update_subset [of "fst timer" next_time result] Cons.prems(2)
        utcoffset_fromtimestamp [OF n(1)] by auto
    from Cons.IH [OF n(2) this] show ?thesis .
  next
    case rt: False
    show ?thesis
    proof (cases "NextElapseUSecMonotonic ?props \<noteq> 0")
      case True
      with rt Cons.prems(1) obtain delta next_time where n:
        "datetime_add (now_utc (clock i)) delta = Inr next_time"
        "timers_loop bus clock (Suc i) (AList.update (fst timer) next_time result) timers = Inr executions"
        by (auto split: sum.splits)
      have "utcoffset next_time = Some 0"
        using utcoffset_datetime_add [OF n(1)] by (simp add: now_utc_def)
      then have "\<forall>item\<in>set (AList.update (fst timer) next_time result). utcoffset (snd item) = Some 0"
        using set_update_subset [of "fst timer" next_time result] Cons.prems(2) by auto
      from Cons.IH [OF n(2) this] show ?thesis .
    next
      case False
      with rt Cons.prems(1) have "timers_loop bus clock (Suc i) result timers = Inr executions"
        by simp
      from Cons.IH [OF this Cons.prems(2)] show ?thesis .
    qed
  qed
qed

lemma utcoffset_SystemdTimer_check:
  assumes "SystemdTimer_check match bus clock timestamp = Inr (Some d)"
  shows "utcoffset d = Some 0"
proof -
  from assms obtain executions where ex:
    "next_timer_executions bus clock = Inr executions"
    "py_min (map snd (filter (\<lambda>item. match (fst item)) executions)) = Inr d"
    by (auto simp add: SystemdTimer_check_def Let_def split: sum.splits if_splits)
  have "\<forall>item\<in>set executions. utcoffset (snd item) = Some 0"
    using utcoffset_timers_loop [of bus clock 0 "[]" "timer_units bus" executions] ex(1)
    by (simp add: next_timer_executions_def)
  moreover have "d \<in> set (map snd (filter (\<lambda>item. match (fst item)) executions))"
    using min_gen_result [of Inr "map snd (filter (\<lambda>item. match (fst item)) executions)" d] ex(2)
    by (simp add: py_min_def)
  ultimately show ?thesis by auto
qed

lemma utcoffset_convert_result_XPath:
  "convert_result XPath m timestamp = Inr d \<Longrightarrow> utcoffset d = Some 0"
  by (auto simp add: utcoffset_fromtimestamp split: sum.splits)

lemma utcoffset_convert_result_XPathDelta:
  "convert_result (XPathDelta unit) m timestamp = Inr d \<Longrightarrow> utcoffset d = utcoffset timestamp"
  by (auto simp add: utcoffset_datetime_add split: sum.splits)

lemma XPath_check_result:
  assumes "XPath_check self evaluate timestamp = Inr (Some d)"
  shows "\<exists>matches. evaluate = Inr matches \<and> (\<exists>m\<in>set matches. convert_result self m timestamp = Inr d)"
proof -
  from assms obtain matches where m: "evaluate = Inr matches"
    "min_gen (\<lambda>m. convert_result self m timestamp) matches = Inr d"
    by (auto simp add: XPath_check_def split: sum.splits if_splits)
  from min_gen_result [OF m(2)] m(1) show ?thesis by blast
qed

lemma utcoffset_Periodic_check:
  "Periodic_check delta timestamp = Inr (Some d) \<Longrightarrow> utcoffset d = utcoffset timestamp"
  by (auto simp add: Periodic_check_def utcoffset_datetime_add split: sum.splits)

lemma XPathDelta_check_10_minutes:
  "XPath_check (XPathDelta ''minutes'') (Inr [XStr ''10''])
     \<lparr>wall_us = 1699999400000000, utcoffset = Some 0\<rparr> =
   Inr (Some \<lparr>wall_us = 1700000000000000, utcoffset = Some 0\<rparr>)"
  by (simp add: XPath_check_def min_gen_def float_of_str_10 time_defs)

lemma Periodic_check_10_minutes:
  "Periodic_check 600000000 \<lparr>wall_us = 1699999400000000, utcoffset = Some 0\<rparr> =
   Inr (Some \<lparr>wall_us = 1700000000000000, utcoffset = Some 0\<rparr>)"
  by (simp add: Periodic_check_def time_defs)

lemma SystemdTimer_check_two_timers:
  "SystemdTimer_check (\<lambda>name. True) two_timers_bus clock timestamp =
   Inr (Some \<lparr>wall_us = 1700000000000000, utcoffset = Some 0\<rparr>)"
  by (simp add: SystemdTimer_check_def next_timer_executions_def timer_units_two_timers
      GetAll_two_timers fromtimestamp_usec EXACT_USEC_LIMIT_def py_min_def min_gen_def
      datetime_lt_def)

text \<open>
  A Periodic check of 30 minutes and a reference time without a timezone: the check
  returns an instant without a timezone.
\<close>

theorem Periodic_check_naive_reference:
  "Periodic_create [''unit'' \<mapsto> ''minutes'', ''value'' \<mapsto> ''30''] = Inr 1800000000 \<and>
   Periodic_check 1800000000 \<lparr>wall_us = 1700000000000000, utcoffset = None\<rparr> =
     Inr (Some \<lparr>wall_us = 1700001800000000, utcoffset = None\<rparr>) \<and>
   aware \<lparr>wall_us = 1700001800000000, utcoffset = None\<rparr> = False"
  by (simp add: Periodic_create_30_minutes Periodic_check_def aware_def time_defs)

text \<open>
  Claim C9, amended. Every instant that the File, the Command, the timer-scan or the
  document-derived absolute wakeup check returns is timezone-aware and in UTC: these
  checks, whose sources carry no timezone, build the instant in UTC. Every instant
  that the Periodic or the document-derived relative check returns has the timezone of
  the reference time: it is timezone-aware if and only if the reference time is.
\<close>

theorem wakeup_instants_timezone_aware:
  "(File_check read_text timestamp = Inr (Some d) \<longrightarrow> utcoffset d = Some 0 \<and> aware d) \<and>
   (Command_check not_found proc timestamp = Inr (Some d) \<longrightarrow> utcoffset d = Some 0 \<and> aware d) \<and>
   (SystemdTimer_check match bus clock timestamp = Inr (Some d) \<longrightarrow>
      utcoffset d = Some 0 \<and> aware d) \<and>
   (XPath_check XPath evaluate timestamp = Inr (Some d) \<longrightarrow> utcoffset d = Some 0 \<and> aware d) \<and>
   (Periodic_check delta timestamp = Inr (Some d) \<longrightarrow>
      utcoffset d = utcoffset timestamp \<and> aware d = aware timestamp) \<and>
   (XPath_check (XPathDelta unit) evaluate_delta timestamp = Inr (Some d) \<longrightarrow>
      utcoffset d = utcoffset timestamp \<and> aware d = aware timestamp)"
proof -
  have utc: "aware d" if "utcoffset d = Some 0"
    using that by (simp add: aware_def)
  have same: "aware d = aware timestamp" if "utcoffset d = utcoffset timestamp"
    using that by (simp add: aware_def)
  show ?thesis
    using utcoffset_File_check [of read_text timestamp d]
      utcoffset_Command_check [of not_found proc timestamp d]
      utcoffset_SystemdTimer_check [of match bus clock timestamp d]
      utcoffset_Periodic_check [of delta timestamp d]
      XPath_check_result [of XPath evaluate timestamp d]
      XPath_check_result [of "XPathDelta unit" evaluate_delta timestamp d]
      utcoffset_convert_result_XPath [of _ timestamp d]
      utcoffset_convert_result_XPathDelta [of unit _ timestamp d]
      utc same
    by blast
qed

theorem wakeup_instants_timezone_aware_witness:
  "File_check (Inr ''1700000000'') \<lparr>wall_us = 1699999400000000, utcoffset = Some 0\<rparr> =
     Inr (Some \<lparr>wall_us = 1700000000000000, utcoffset = Some 0\<rparr>) \<and>
   Command_check (\<lambda>returncode. returncode = 127) (0, ''1700000000'' @ [CHR 0x0A])
       \<lparr>wall_us = 1699999400000000, utcoffset = Some 0\<rparr> =
     Inr (Some \<lparr>wall_us = 1700000000000000, utcoffset = Some 0\<rparr>) \<and>
   SystemdTimer_check (\<lambda>name. True) two_timers_bus (\<lambda>i. 0)
       \<lparr>wall_us = 1699999400000000, utcoffset = Some 0\<rparr> =
     Inr (Some \<lparr>wall_us = 1700000000000000, utcoffset = Some 0\<rparr>) \<and>
   XPath_check XPath (Inr [XStr ''1700000000'']) \<lparr>wall_us = 1699999400000000, utcoffset = Some 0\<rparr> =
     Inr (Some \<lparr>wall_us = 1700000000000000, utcoffset = Some 0\<rparr>) \<and>
   Periodic_check 600000000 \<lparr>wall_us = 1699999400000000, utcoffset = Some 0\<rparr> =
     Inr (Some \<lparr>wall_us = 1700000000000000, utcoffset = Some 0\<rparr>) \<and>
   XPath_check (XPathDelta ''minutes'') (Inr [XStr ''10''])
       \<lparr>wall_us = 1699999400000000, utcoffset = Some 0\<rparr> =
     Inr (Some \<lparr>wall_us = 1700000000000000, utcoffset = Some 0\<rparr>) \<and>
   utcoffset \<lparr>wall_us = 1700000000000000, utcoffset = Some 0\<rparr> = Some 0 \<and>
   utcoffset \<lparr>wall_us = 1700000000000000, utcoffset = Some 0\<rparr> =
     utcoffset \<lparr>wall_us = 1699999400000000, utcoffset = Some 0\<rparr> \<and>
   aware \<lparr>wall_us = 1700000000000000, utcoffset = Some 0\<rparr> \<and>
   aware \<lparr>wall_us = 1699999400000000, utcoffset = Some 0\<rparr>"
  using wakeup_instants_timezone_aware
    [of "Inr ''1700000000''" "\<lparr>wall_us = 1699999400000000, utcoffset = Some 0\<rparr>"
        "\<lparr>wall_us = 1700000000000000, utcoffset = Some 0\<rparr>"
        "\<lambda>returncode. returncode = 127" "(0, ''1700000000'' @ [CHR 0x0A])"
        "\<lambda>name. True" two_timers_bus "\<lambda>i. 0" "Inr [XStr ''1700000000'']" 600000000 "''minutes''"
        "Inr [XStr ''10'']"]
    File_check_timestamp Command_check_timestamp SystemdTimer_check_two_timers
    XPath_check_timestamp Periodic_check_10_minutes XPathDelta_check_10_minutes
  by (simp add: aware_def)

section \<open>Independence of the reference time\<close>

lemma convert_result_XPath_independent:
  "(\<lambda>m. convert_result XPath m t1) = (\<lambda>m. convert_result XPath m t2)"
  by (rule ext) simp

text \<open>
  Claim C10. The results of the File, the Command, the timer-scan and the
  document-derived absolute wakeup checks do not depend on the reference time: for
  the same observations of the external source, two reference times give the same
  result or the same error.
\<close>

theorem reference_time_independent:
  "File_check read_text t1 = File_check read_text t2 \<and>
   Command_check not_found proc t1 = Command_check not_found proc t2 \<and>
   SystemdTimer_check match bus clock t1 = SystemdTimer_check match bus clock t2 \<and>
   XPath_check XPath evaluate t1 = XPath_check XPath evaluate t2"
proof -
  have "XPath_check XPath evaluate t1 = XPath_check XPath evaluate t2"
    unfolding XPath_check_def convert_result_XPath_independent [of t1 t2] by (rule refl)
  then show ?thesis
    by (simp add: File_check_def Command_check_def SystemdTimer_check_def)
qed

end
